theory Spec2Isabelle
  imports Complex_Main "HOL-Library.Word"
begin

section \<open>Driving conditions and the factor tables (adaptive-sr.py)\<close>

text \<open>
  The enumerations and the dataclass of \<^verbatim>\<open>adaptive-sr.py\<close>. Python floats are
  read as real numbers: every statement below is about the exact arithmetic of the
  formulas, not about binary64 rounding.
\<close>

datatype WeatherCondition = CLEAR | RAIN | FOG | SNOW

datatype TimeOfDay = DAY | DAWN_DUSK | NIGHT

record DrivingConditions =
  weather :: WeatherCondition
  time_of_day :: TimeOfDay
  vehicle_speed :: real
  ambient_light :: real

text \<open>The attributes set by \<^verbatim>\<open>AdaptiveSR.__init__\<close>.\<close>

definition base_noise_level :: real where
  "base_noise_level = 0.1"

definition max_noise_level :: real where
  "max_noise_level = 0.3"

text \<open>
  The two dictionaries of \<^verbatim>\<open>__init__\<close>. Each has a key for every member of its
  enumeration, so the lookup \<^verbatim>\<open>self.weather_factors[conditions.weather]\<close> is total
  on the enumeration.
\<close>

fun weather_factors :: "WeatherCondition \<Rightarrow> real" where
  "weather_factors CLEAR = 1.0"
| "weather_factors RAIN = 1.2"
| "weather_factors FOG = 1.5"
| "weather_factors SNOW = 1.3"

fun time_factors :: "TimeOfDay \<Rightarrow> real" where
  "time_factors DAY = 0.8"
| "time_factors DAWN_DUSK = 1.2"
| "time_factors NIGHT = 1.5"

text \<open>\<^verbatim>\<open>np.clip(a, a_min, a_max)\<close> on a scalar: \<^verbatim>\<open>minimum(maximum(a, a_min), a_max)\<close>.\<close>

definition np_clip :: "real \<Rightarrow> real \<Rightarrow> real \<Rightarrow> real" where
  "np_clip a a_min a_max = min (max a a_min) a_max"

text \<open>\<^verbatim>\<open>AdaptiveSR.calculate_noise_level\<close>, line by line.\<close>

definition calculate_noise_level :: "DrivingConditions \<Rightarrow> real \<Rightarrow> real \<Rightarrow> real" where
  "calculate_noise_level conditions local_brightness local_contrast =
     (let weather_factor = weather_factors (weather conditions);
          time_factor = time_factors (time_of_day conditions);
          speed_factor = 1.0 + (vehicle_speed conditions / 130.0) * 0.2;
          light_factor = 1.0 + (1.0 - np_clip (ambient_light conditions / 50000.0) 0 1) * 0.5;
          brightness_factor = 1.0 + (1.0 - local_brightness) * 0.3;
          contrast_factor = 1.0 + (1.0 - local_contrast) * 0.4;
          noise_level = base_noise_level *
            (weather_factor * time_factor * speed_factor * light_factor *
             brightness_factor * contrast_factor)
      in np_clip noise_level base_noise_level max_noise_level)"

subsection \<open>The formula as the specification words it\<close>

text \<open>
  A second definition, written from the specification's sentences only (its factor
  tables, its \<open>clamp\<close> and its product in the specification's order), to be compared
  with the function translated from the code.
\<close>

definition clamp_spec :: "real \<Rightarrow> real \<Rightarrow> real \<Rightarrow> real" where
  "clamp_spec v lo hi = (if v < lo then lo else if hi < v then hi else v)"

definition weatherFactor_spec :: "WeatherCondition \<Rightarrow> real" where
  "weatherFactor_spec w =
     (case w of CLEAR \<Rightarrow> 1.0 | RAIN \<Rightarrow> 1.2 | FOG \<Rightarrow> 1.5 | SNOW \<Rightarrow> 1.3)"

definition timeFactor_spec :: "TimeOfDay \<Rightarrow> real" where
  "timeFactor_spec t = (case t of DAY \<Rightarrow> 0.8 | DAWN_DUSK \<Rightarrow> 1.2 | NIGHT \<Rightarrow> 1.5)"

definition level_spec :: "DrivingConditions \<Rightarrow> real \<Rightarrow> real \<Rightarrow> real" where
  "level_spec c brightness contrast =
     clamp_spec
       (0.1 * weatherFactor_spec (weather c) * timeFactor_spec (time_of_day c) *
        (1 + (vehicle_speed c / 130) * 0.2) *
        (1 + (1 - clamp_spec (ambient_light c / 50000) 0 1) * 0.5) *
        (1 + (1 - brightness) * 0.3) *
        (1 + (1 - contrast) * 0.4))
       0.1 0.3"

section \<open>Arrays, errors and the external libraries\<close>

text \<open>
  A numpy array is a shape together with indexable data. The programs here only meet
  two- and three-dimensional arrays: a plane \<open>(H, W)\<close> and a frame \<open>(H, W, C)\<close>.
  The data are read at row \<open>i\<close>, column \<open>j\<close>, channel \<open>k\<close> (channel 0 for a
  plane); only indices inside the shape are ever read by the operations below.
  Samples of type \<^verbatim>\<open>np.uint8\<close> are 8-bit words.
\<close>

type_synonym uint8 = "8 word"

datatype shape = Shape2 nat nat | Shape3 nat nat nat

fun height :: "shape \<Rightarrow> nat" where
  "height (Shape2 h w) = h"
| "height (Shape3 h w c) = h"

fun width :: "shape \<Rightarrow> nat" where
  "width (Shape2 h w) = w"
| "width (Shape3 h w c) = w"

text \<open>The channel count as OpenCV reads it: a two-dimensional array is one channel.\<close>

fun channels :: "shape \<Rightarrow> nat" where
  "channels (Shape2 h w) = 1"
| "channels (Shape3 h w c) = c"

fun with_extent :: "shape \<Rightarrow> nat \<Rightarrow> nat \<Rightarrow> shape" where
  "with_extent (Shape2 _ _) h w = Shape2 h w"
| "with_extent (Shape3 _ _ c) h w = Shape3 h w c"

definition size_of :: "shape \<Rightarrow> nat" where
  "size_of s = height s * width s * channels s"

definition offset :: "shape \<Rightarrow> nat \<Rightarrow> nat \<Rightarrow> nat \<Rightarrow> nat" where
  "offset s i j k = (i * width s + j) * channels s + k"

record 'a ndarray =
  shape :: shape
  dat :: "nat \<Rightarrow> nat \<Rightarrow> nat \<Rightarrow> 'a"

text \<open>The exceptions the modelled code can raise.\<close>

datatype error = Cv2Error | ValueError | IndexError

definition map_array :: "('a \<Rightarrow> 'b) \<Rightarrow> 'a ndarray \<Rightarrow> 'b ndarray" where
  "map_array f a = \<lparr>shape = shape a, dat = (\<lambda>i j k. f (dat a i j k))\<rparr>"

text \<open>An elementwise binary operation on two arrays of one shape.\<close>

definition zip_array :: "('a \<Rightarrow> 'b \<Rightarrow> 'c) \<Rightarrow> 'a ndarray \<Rightarrow> 'b ndarray \<Rightarrow> 'c ndarray" where
  "zip_array f a b = \<lparr>shape = shape a, dat = (\<lambda>i j k. f (dat a i j k) (dat b i j k))\<rparr>"

definition zeros_like :: "uint8 ndarray \<Rightarrow> uint8 ndarray" where
  "zeros_like a = \<lparr>shape = shape a, dat = (\<lambda>i j k. 0)\<rparr>"

text \<open>The elements in C order, as \<^verbatim>\<open>ravel\<close> lists them.\<close>

definition ravel :: "'a ndarray \<Rightarrow> 'a list" where
  "ravel a =
     concat (map (\<lambda>i. concat (map (\<lambda>j. map (\<lambda>k. dat a i j k)
       [0..<channels (shape a)]) [0..<width (shape a)])) [0..<height (shape a)])"

text \<open>
  \<^verbatim>\<open>np.mean\<close> and \<^verbatim>\<open>np.std\<close> of a uint8 array (computed in float64, here in the
  reals). On an empty array numpy returns nan with a warning; the callers below never
  reach that case, because \<^verbatim>\<open>cv2.cvtColor\<close> has rejected the empty array before.
\<close>

definition np_mean :: "uint8 ndarray \<Rightarrow> real" where
  "np_mean a = sum_list (map (\<lambda>v. real (unat v)) (ravel a)) / real (length (ravel a))"

definition np_std :: "uint8 ndarray \<Rightarrow> real" where
  "np_std a =
     sqrt (sum_list (map (\<lambda>v. (real (unat v) - np_mean a)\<^sup>2) (ravel a))
           / real (length (ravel a)))"

text \<open>
  \<^verbatim>\<open>.astype(np.uint8)\<close> of a float: the fraction is dropped (towards zero). For
  \<open>0 \<le> x < 256\<close> that is the whole story. Outside that range the C conversion is
  platform-defined; the model wraps modulo 256, as the common platforms do.
\<close>

definition astype_uint8 :: "real \<Rightarrow> uint8" where
  "astype_uint8 x = word_of_int (if x < 0 then \<lceil>x\<rceil> else \<lfloor>x\<rfloor>)"

subsection \<open>Python slices\<close>

text \<open>
  A slice bound \<open>i\<close> on an axis of length \<open>n\<close>: a negative bound counts from the
  end, and the result is cut to \<open>[0, n]\<close>. The slice \<open>[lo:hi]\<close> then holds the indices
  from the adjusted \<open>lo\<close> up to, not including, the adjusted \<open>hi\<close> (none if the
  latter is not larger).
\<close>

definition slice_index :: "int \<Rightarrow> nat \<Rightarrow> nat" where
  "slice_index i n = (if i < 0 then nat (max 0 (i + int n)) else min (nat i) n)"

text \<open>\<^verbatim>\<open>a[y0:y1, x0:x1]\<close>: the contents of the view.\<close>

definition getitem_slice2 :: "'a ndarray \<Rightarrow> int \<Rightarrow> int \<Rightarrow> int \<Rightarrow> int \<Rightarrow> 'a ndarray" where
  "getitem_slice2 a y0 y1 x0 x1 =
     (let r0 = slice_index y0 (height (shape a)); r1 = slice_index y1 (height (shape a));
          c0 = slice_index x0 (width (shape a)); c1 = slice_index x1 (width (shape a))
      in \<lparr>shape = with_extent (shape a) (r1 - r0) (c1 - c0),
          dat = (\<lambda>i j k. dat a (r0 + i) (c0 + j) k)\<rparr>)"

text \<open>
  \<^verbatim>\<open>a[y0:y1, x0:x1] = v\<close>. numpy raises ValueError when \<open>v\<close> cannot be broadcast to
  the slice; \<^verbatim>\<open>apply_sr\<close> assigns a value that has the shape of the slice, so the
  model accepts exactly that and broadcasting of other shapes is not modelled.
\<close>

definition setitem_slice2 ::
  "'a ndarray \<Rightarrow> int \<Rightarrow> int \<Rightarrow> int \<Rightarrow> int \<Rightarrow> 'a ndarray \<Rightarrow> error + 'a ndarray" where
  "setitem_slice2 a y0 y1 x0 x1 v =
     (let r0 = slice_index y0 (height (shape a)); r1 = slice_index y1 (height (shape a));
          c0 = slice_index x0 (width (shape a)); c1 = slice_index x1 (width (shape a))
      in if shape v = with_extent (shape a) (r1 - r0) (c1 - c0)
         then Inr \<lparr>shape = shape a,
                   dat = (\<lambda>i j k. if r0 \<le> i \<and> i < r1 \<and> c0 \<le> j \<and> j < c1
                                    then dat v (i - r0) (j - c0) k else dat a i j k)\<rparr>
         else Inl ValueError)"

subsection \<open>The libraries the code calls\<close>

text \<open>
  OpenCV's pixel arithmetic and numpy's generator are not code of this repository.
  They enter as parameters: the grayscale reduction of one (b, g, r) pixel, the value
  of the bilateral filter and of the box filter at one position of a source plane,
  and, for a generator state of type \<open>'g\<close>, one draw of a standard normal, a
  uniform [0,1) and a standard exponential variate (each returns the next state),
  and the state that \<^verbatim>\<open>np.random.seed\<close> installs.
\<close>

record 'g library =
  lib_gray :: "uint8 \<Rightarrow> uint8 \<Rightarrow> uint8 \<Rightarrow> uint8"
  lib_bilateral :: "uint8 ndarray \<Rightarrow> nat \<Rightarrow> real \<Rightarrow> real \<Rightarrow> nat \<Rightarrow> nat \<Rightarrow> uint8"
  lib_box :: "real ndarray \<Rightarrow> nat \<times> nat \<Rightarrow> nat \<Rightarrow> nat \<Rightarrow> real"
  lib_gauss :: "'g \<Rightarrow> real \<times> 'g"
  lib_random :: "'g \<Rightarrow> real \<times> 'g"
  lib_exponential :: "'g \<Rightarrow> real \<times> 'g"
  lib_seed :: "int \<Rightarrow> 'g"

text \<open>An OpenCV matrix is empty when it has no row or no column.\<close>

definition is_empty :: "'a ndarray \<Rightarrow> bool" where
  "is_empty a = (height (shape a) = 0 \<or> width (shape a) = 0)"

text \<open>
  \<^verbatim>\<open>cv2.cvtColor(src, cv2.COLOR_BGR2GRAY)\<close>: OpenCV asserts that the source is not
  empty and has 3 or 4 channels; the result is a plane of the same height and width.
\<close>

definition cvtColor_BGR2GRAY ::
  "(uint8 \<Rightarrow> uint8 \<Rightarrow> uint8 \<Rightarrow> uint8) \<Rightarrow> uint8 ndarray \<Rightarrow> error + uint8 ndarray" where
  "cvtColor_BGR2GRAY gray src =
     (if is_empty src then Inl Cv2Error
      else if channels (shape src) = 3 \<or> channels (shape src) = 4
      then Inr \<lparr>shape = Shape2 (height (shape src)) (width (shape src)),
                dat = (\<lambda>i j k. gray (dat src i j 0) (dat src i j 1) (dat src i j 2))\<rparr>
      else Inl Cv2Error)"

text \<open>
  \<^verbatim>\<open>cv2.split\<close>: one plane per channel (freshly allocated copies); no plane for an
  empty source.
\<close>

definition cv2_split :: "'a ndarray \<Rightarrow> 'a ndarray list" where
  "cv2_split src =
     (if is_empty src then []
      else map (\<lambda>c. \<lparr>shape = Shape2 (height (shape src)) (width (shape src)),
                      dat = (\<lambda>i j k. dat src i j c)\<rparr>)
             [0..<channels (shape src)])"

text \<open>
  \<^verbatim>\<open>cv2.merge\<close> of single-channel planes, which is all the code merges: OpenCV
  asserts a non-empty list of planes of one size; plane \<open>k\<close> becomes channel \<open>k\<close>.
\<close>

definition cv2_merge :: "'a ndarray list \<Rightarrow> error + 'a ndarray" where
  "cv2_merge mv =
     (case mv of
        [] \<Rightarrow> Inl Cv2Error
      | m # ms \<Rightarrow>
          if list_all (\<lambda>x. shape x = Shape2 (height (shape m)) (width (shape m))) mv
          then Inr \<lparr>shape = Shape3 (height (shape m)) (width (shape m)) (length mv),
                    dat = (\<lambda>i j k. dat (mv ! k) i j 0)\<rparr>
          else Inl Cv2Error)"

text \<open>
  \<^verbatim>\<open>cv2.bilateralFilter(src, d, sigmaColor, sigmaSpace)\<close> and
  \<^verbatim>\<open>cv2.boxFilter(src, -1, ksize)\<close>: by OpenCV's contract the destination has the
  size and type of the source; its value at each position is the library's.
\<close>

definition cv2_bilateralFilter ::
  "(uint8 ndarray \<Rightarrow> nat \<Rightarrow> real \<Rightarrow> real \<Rightarrow> nat \<Rightarrow> nat \<Rightarrow> uint8) \<Rightarrow>
     uint8 ndarray \<Rightarrow> nat \<Rightarrow> real \<Rightarrow> real \<Rightarrow> uint8 ndarray" where
  "cv2_bilateralFilter bil src d sigmaColor sigmaSpace =
     \<lparr>shape = shape src, dat = (\<lambda>i j k. bil src d sigmaColor sigmaSpace i j)\<rparr>"

definition cv2_boxFilter ::
  "(real ndarray \<Rightarrow> nat \<times> nat \<Rightarrow> nat \<Rightarrow> nat \<Rightarrow> real) \<Rightarrow> real ndarray \<Rightarrow> nat \<times> nat \<Rightarrow> real ndarray" where
  "cv2_boxFilter box src ksize = \<lparr>shape = shape src, dat = (\<lambda>i j k. box src ksize i j)\<rparr>"

text \<open>
  Drawing \<open>n\<close> variates in sequence from the generator, and an array of them filled
  in C order.
\<close>

fun draws :: "('g \<Rightarrow> real \<times> 'g) \<Rightarrow> nat \<Rightarrow> 'g \<Rightarrow> real list \<times> 'g" where
  "draws d 0 g = ([], g)"
| "draws d (Suc n) g =
     (case d g of (z, g1) \<Rightarrow> (case draws d n g1 of (zs, g2) \<Rightarrow> (z # zs, g2)))"

definition random_array :: "('g \<Rightarrow> real \<times> 'g) \<Rightarrow> shape \<Rightarrow> 'g \<Rightarrow> real ndarray \<times> 'g" where
  "random_array d s g =
     (case draws d (size_of s) g of
        (zs, g1) \<Rightarrow> (\<lparr>shape = s, dat = (\<lambda>i j k. zs ! offset s i j k)\<rparr>, g1))"

text \<open>
  \<^verbatim>\<open>np.random.normal(loc, scale, size)\<close> and \<^verbatim>\<open>np.random.exponential(scale, size)\<close>
  raise ValueError on a negative scale; \<^verbatim>\<open>np.random.uniform(low, high, size)\<close> and
  \<^verbatim>\<open>np.random.random(size)\<close> do not fail.
\<close>

definition np_random_normal ::
  "('g \<Rightarrow> real \<times> 'g) \<Rightarrow> real \<Rightarrow> real \<Rightarrow> shape \<Rightarrow> 'g \<Rightarrow> (error + real ndarray) \<times> 'g" where
  "np_random_normal gauss loc scale s g =
     (if scale < 0 then (Inl ValueError, g)
      else case random_array gauss s g of
             (z, g1) \<Rightarrow> (Inr (map_array (\<lambda>v. loc + scale * v) z), g1))"

definition np_random_exponential ::
  "('g \<Rightarrow> real \<times> 'g) \<Rightarrow> real \<Rightarrow> shape \<Rightarrow> 'g \<Rightarrow> (error + real ndarray) \<times> 'g" where
  "np_random_exponential expo scale s g =
     (if scale < 0 then (Inl ValueError, g)
      else case random_array expo s g of
             (z, g1) \<Rightarrow> (Inr (map_array (\<lambda>v. scale * v) z), g1))"

definition np_random_uniform ::
  "('g \<Rightarrow> real \<times> 'g) \<Rightarrow> real \<Rightarrow> real \<Rightarrow> shape \<Rightarrow> 'g \<Rightarrow> real ndarray \<times> 'g" where
  "np_random_uniform rnd low high s g =
     (case random_array rnd s g of
        (z, g1) \<Rightarrow> (map_array (\<lambda>v. low + (high - low) * v) z, g1))"

section \<open>The condition-driven pipeline (adaptive-sr.py)\<close>

text \<open>\<^verbatim>\<open>AdaptiveSR.detect_local_conditions\<close>.\<close>

definition detect_local_conditions ::
  "(uint8 \<Rightarrow> uint8 \<Rightarrow> uint8 \<Rightarrow> uint8) \<Rightarrow> uint8 ndarray \<Rightarrow> error + real \<times> real" where
  "detect_local_conditions gray_of frame =
     (case cvtColor_BGR2GRAY gray_of frame of
        Inl e \<Rightarrow> Inl e
      | Inr gray \<Rightarrow>
          (let mean_brightness = np_mean gray / 255.0;
               local_contrast = np_std gray / 255.0
           in Inr (mean_brightness, local_contrast)))"

text \<open>
  The loop of \<^verbatim>\<open>_apply_sr_to_region\<close> over the planes \<^verbatim>\<open>[b, g, r]\<close>: each plane
  draws its own noise from the global generator, is clipped, cast and filtered.
\<close>

fun process_channels ::
  "'g library \<Rightarrow> real \<Rightarrow> uint8 ndarray list \<Rightarrow> 'g \<Rightarrow> (error + uint8 ndarray list) \<times> 'g" where
  "process_channels L noise_level [] g = (Inr [], g)"
| "process_channels L noise_level (channel # rest) g =
     (case np_random_normal (lib_gauss L) 0 (noise_level * 255) (shape channel) g of
        (Inl e, g1) \<Rightarrow> (Inl e, g1)
      | (Inr noise, g1) \<Rightarrow>
          (let noisy = map_array astype_uint8
                 (map_array (\<lambda>v. np_clip v 0 255)
                    (zip_array (\<lambda>c n. real (unat c) + n) channel noise));
               filtered = cv2_bilateralFilter (lib_bilateral L) noisy 9 75 75
           in case process_channels L noise_level rest g1 of
                (Inl e, g2) \<Rightarrow> (Inl e, g2)
              | (Inr processed_channels, g2) \<Rightarrow> (Inr (filtered # processed_channels), g2)))"

text \<open>
  \<^verbatim>\<open>AdaptiveSR._apply_sr_to_region\<close>. The unpacking \<^verbatim>\<open>b, g, r = cv2.split(region)\<close>
  raises ValueError unless the split gives exactly three planes.
\<close>

definition apply_sr_to_region ::
  "'g library \<Rightarrow> uint8 ndarray \<Rightarrow> real \<Rightarrow> 'g \<Rightarrow> (error + uint8 ndarray) \<times> 'g" where
  "apply_sr_to_region L region noise_level g =
     (case cv2_split region of
        [b, g', r] \<Rightarrow>
          (case process_channels L noise_level [b, g', r] g of
             (Inl e, g1) \<Rightarrow> (Inl e, g1)
           | (Inr processed_channels, g1) \<Rightarrow> (cv2_merge processed_channels, g1))
      | _ \<Rightarrow> (Inl ValueError, g))"

text \<open>
  The state \<^verbatim>\<open>apply_sr\<close> runs in: the array buffers by reference, the next unused
  reference, and the state of numpy's global generator. References below
  \<open>next_ref\<close> are the allocated ones.
\<close>

record 'g world =
  heap :: "nat \<Rightarrow> uint8 ndarray"
  next_ref :: nat
  rng :: 'g

definition alloc :: "uint8 ndarray \<Rightarrow> 'g world \<Rightarrow> nat \<times> 'g world" where
  "alloc a w = (next_ref w, w\<lparr>heap := (heap w)(next_ref w := a), next_ref := Suc (next_ref w)\<rparr>)"

text \<open>
  The region \<^verbatim>\<open>apply_sr\<close> works on: the view \<^verbatim>\<open>frame[y:y+h, x:x+w]\<close> when a ROI
  tuple is given (any 4-tuple is true for \<^verbatim>\<open>if roi:\<close>), else the frame itself. A view
  shares the frame's buffer, so its contents are read from the frame's buffer at the
  time of use.
\<close>

definition region_of :: "uint8 ndarray \<Rightarrow> (int \<times> int \<times> int \<times> int) option \<Rightarrow> uint8 ndarray" where
  "region_of frame roi =
     (case roi of
        Some (x, y, w, h) \<Rightarrow> getitem_slice2 frame y (y + h) x (x + w)
      | None \<Rightarrow> frame)"

text \<open>
  \<^verbatim>\<open>AdaptiveSR.apply_sr\<close>. The frame is passed by reference; the result is the
  reference of the returned array, or the exception raised, with the state left
  behind.
\<close>

definition apply_sr ::
  "'g library \<Rightarrow> 'g world \<Rightarrow> nat \<Rightarrow> DrivingConditions \<Rightarrow> (int \<times> int \<times> int \<times> int) option \<Rightarrow>
     (error + nat) \<times> 'g world" where
  "apply_sr L w0 frame conditions roi =
     (case detect_local_conditions (lib_gray L) (region_of (heap w0 frame) roi) of
        Inl e \<Rightarrow> (Inl e, w0)
      | Inr (local_brightness, local_contrast) \<Rightarrow>
          (let noise_level = calculate_noise_level conditions local_brightness local_contrast
           in case alloc (heap w0 frame) w0 of
                (result, w1) \<Rightarrow>
                  (case roi of
                     Some (x, y, w, h) \<Rightarrow>
                       (case apply_sr_to_region L (region_of (heap w1 frame) roi) noise_level (rng w1) of
                          (Inl e, g) \<Rightarrow> (Inl e, w1\<lparr>rng := g\<rparr>)
                        | (Inr processed, g) \<Rightarrow>
                            (case setitem_slice2 (heap w1 result) y (y + h) x (x + w) processed of
                               Inl e \<Rightarrow> (Inl e, w1\<lparr>rng := g\<rparr>)
                             | Inr updated \<Rightarrow>
                                 (Inr result, w1\<lparr>heap := (heap w1)(result := updated), rng := g\<rparr>)))
                   | None \<Rightarrow>
                       (case apply_sr_to_region L (heap w1 frame) noise_level (rng w1) of
                          (Inl e, g) \<Rightarrow> (Inl e, w1\<lparr>rng := g\<rparr>)
                        | (Inr processed, g) \<Rightarrow>
                            (case alloc processed (w1\<lparr>rng := g\<rparr>) of
                               (result2, w2) \<Rightarrow> (Inr result2, w2))))))"

section \<open>The image-driven noise map (sr\_sandbox.py)\<close>

text \<open>
  The first lines of \<^verbatim>\<open>adaptive_sr\<close>: the grayscale plane, its 21 by 21 box filter
  (on \<^verbatim>\<open>np.float32(gray)\<close>) and the noise map.
\<close>

definition noise_map_of :: "'g library \<Rightarrow> uint8 ndarray \<Rightarrow> real \<Rightarrow> error + real ndarray" where
  "noise_map_of L img base_noise =
     (case cvtColor_BGR2GRAY (lib_gray L) img of
        Inl e \<Rightarrow> Inl e
      | Inr gray \<Rightarrow>
          (let local_std = cv2_boxFilter (lib_box L) (map_array (\<lambda>v. real (unat v)) gray) (21, 21);
               noise_map = map_array (\<lambda>v. base_noise * (1.0 - v / 255.0)) local_std
           in Inr noise_map))"

text \<open>
  \<^verbatim>\<open>image[:, :, i]\<close> raises IndexError on a two-dimensional array and on a channel
  index that is out of range.
\<close>

definition getitem_channel :: "'a ndarray \<Rightarrow> nat \<Rightarrow> error + 'a ndarray" where
  "getitem_channel a i =
     (case shape a of
        Shape2 h w \<Rightarrow> Inl IndexError
      | Shape3 h w c \<Rightarrow>
          if i < c then Inr \<lparr>shape = Shape2 h w, dat = (\<lambda>r q k. dat a r q i)\<rparr>
          else Inl IndexError)"

text \<open>\<^verbatim>\<open>result[:, :, i] = v\<close> for a plane \<open>v\<close> of the frame's height and width.\<close>

definition setitem_channel :: "'a ndarray \<Rightarrow> nat \<Rightarrow> 'a ndarray \<Rightarrow> 'a ndarray" where
  "setitem_channel a i v =
     \<lparr>shape = shape a, dat = (\<lambda>r q k. if k = i then dat v r q 0 else dat a r q k)\<rparr>"

text \<open>The loop \<^verbatim>\<open>for i in range(3)\<close> of \<^verbatim>\<open>adaptive_sr\<close>, over the indices left to do.\<close>

fun adaptive_sr_loop ::
  "'g library \<Rightarrow> uint8 ndarray \<Rightarrow> real ndarray \<Rightarrow> nat list \<Rightarrow> uint8 ndarray \<Rightarrow> 'g \<Rightarrow>
     (error + uint8 ndarray) \<times> 'g" where
  "adaptive_sr_loop L img noise_map [] result g = (Inr result, g)"
| "adaptive_sr_loop L img noise_map (i # is) result g =
     (case getitem_channel img i of
        Inl e \<Rightarrow> (Inl e, g)
      | Inr channel \<Rightarrow>
          (case np_random_normal (lib_gauss L) 0 1 (shape channel) g of
             (Inl e, g1) \<Rightarrow> (Inl e, g1)
           | (Inr z, g1) \<Rightarrow>
               (let noise = zip_array (\<lambda>a b. a * b) z noise_map;
                    noisy = map_array astype_uint8
                      (map_array (\<lambda>v. np_clip v 0 255)
                         (zip_array (\<lambda>c n. real (unat c) + n) channel noise))
                in adaptive_sr_loop L img noise_map is (setitem_channel result i noisy) g1)))"

text \<open>\<^verbatim>\<open>adaptive_sr(image, base_noise)\<close>.\<close>

definition adaptive_sr ::
  "'g library \<Rightarrow> uint8 ndarray \<Rightarrow> real \<Rightarrow> 'g \<Rightarrow> (error + uint8 ndarray) \<times> 'g" where
  "adaptive_sr L img base_noise g =
     (case noise_map_of L img base_noise of
        Inl e \<Rightarrow> (Inl e, g)
      | Inr noise_map \<Rightarrow> adaptive_sr_loop L img noise_map [0, 1, 2] (zeros_like img) g)"

section \<open>The preview applications (sr\_gui.py, sr\_video\_gui.py)\<close>


text \<open>
  \<^verbatim>\<open>np.clip(noise_image + noise, 0, 255).astype(np.uint8)\<close> on two uint8 arrays: the
  sum is a uint8 sum and wraps around before it is clipped.
\<close>

definition add_noise_uint8 :: "uint8 ndarray \<Rightarrow> uint8 ndarray \<Rightarrow> uint8 ndarray" where
  "add_noise_uint8 noise_image noise = zip_array (\<lambda>a b. min (max (a + b) 0) 255) noise_image noise"

text \<open>\<^verbatim>\<open>a[mask] = v\<close> and \<^verbatim>\<open>a[mask, :] = v\<close> for a boolean mask over the pixels.\<close>

definition setitem_mask :: "uint8 ndarray \<Rightarrow> bool ndarray \<Rightarrow> uint8 \<Rightarrow> uint8 ndarray" where
  "setitem_mask a msk v =
     \<lparr>shape = shape a, dat = (\<lambda>i j k. if dat msk i j 0 then v else dat a i j k)\<rparr>"

text \<open>\<^verbatim>\<open>np.where(cond, a, b)\<close> on three arrays of one shape.\<close>

definition np_where :: "bool ndarray \<Rightarrow> 'a ndarray \<Rightarrow> 'a ndarray \<Rightarrow> 'a ndarray" where
  "np_where cond a b =
     \<lparr>shape = shape b, dat = (\<lambda>i j k. if dat cond i j k then dat a i j k else dat b i j k)\<rparr>"

text \<open>The two masks of the salt-and-pepper branch, for one draw of the noise mask.\<close>

definition salt_mask_at :: "real \<Rightarrow> real \<Rightarrow> bool" where
  "salt_mask_at noise_value u = (u < noise_value / 2)"

definition pepper_mask_at :: "real \<Rightarrow> real \<Rightarrow> bool" where
  "pepper_mask_at noise_value u = (u > 1 - noise_value / 2)"

text \<open>
  The salt-and-pepper branch of \<^verbatim>\<open>apply_image_modifications\<close> in sr\_gui.py, from
  the drawn noise mask to the new \<^verbatim>\<open>noise_image\<close>. The two branches on
  \<^verbatim>\<open>len(noise_image.shape)\<close> make the same assignments.
\<close>

definition salt_and_pepper :: "real ndarray \<Rightarrow> real \<Rightarrow> uint8 ndarray \<Rightarrow> uint8 ndarray" where
  "salt_and_pepper noise_mask noise_value noise_image =
     (let salt_mask = map_array (salt_mask_at noise_value) noise_mask;
          pepper_mask = map_array (pepper_mask_at noise_value) noise_mask;
          salt_pepper_noise = zeros_like noise_image;
          salt_pepper_noise = (case shape noise_image of
              Shape2 h w \<Rightarrow> setitem_mask (setitem_mask salt_pepper_noise salt_mask 255) pepper_mask 0
            | Shape3 h w c \<Rightarrow> setitem_mask (setitem_mask salt_pepper_noise salt_mask 255) pepper_mask 0)
      in np_where (map_array (\<lambda>v. v \<noteq> 0) salt_pepper_noise) salt_pepper_noise noise_image)"

text \<open>
  The noise stage of \<^verbatim>\<open>apply_image_modifications\<close> in sr\_gui.py: from
  \<^verbatim>\<open>noise_image\<close> and the noise type to \<^verbatim>\<open>noisy_image\<close>.
\<close>

definition gaussian_noise ::
  "'g library \<Rightarrow> real \<Rightarrow> uint8 ndarray \<Rightarrow> 'g \<Rightarrow> (error + uint8 ndarray) \<times> 'g" where
  "gaussian_noise L noise_value noise_image g =
     (case np_random_normal (lib_gauss L) 0 (noise_value * 255) (shape noise_image) g of
        (Inl e, g1) \<Rightarrow> (Inl e, g1)
      | (Inr n, g1) \<Rightarrow> (Inr (add_noise_uint8 noise_image (map_array astype_uint8 n)), g1))"

definition noise_stage ::
  "'g library \<Rightarrow> string \<Rightarrow> real \<Rightarrow> uint8 ndarray \<Rightarrow> 'g \<Rightarrow> (error + uint8 ndarray) \<times> 'g" where
  "noise_stage L noise_type noise_value noise_image g =
     (if noise_type = ''Gaussian'' then gaussian_noise L noise_value noise_image g
      else if noise_type = ''Salt and Pepper'' then
        (case random_array (lib_random L)
                (Shape2 (height (shape noise_image)) (width (shape noise_image))) g of
           (noise_mask, g1) \<Rightarrow> (Inr (salt_and_pepper noise_mask noise_value noise_image), g1))
      else if noise_type = ''Speckle'' then
        (case np_random_normal (lib_gauss L) 0 noise_value (shape noise_image) g of
           (Inl e, g1) \<Rightarrow> (Inl e, g1)
         | (Inr noise, g1) \<Rightarrow>
             (Inr (map_array astype_uint8
                    (zip_array (\<lambda>p n. real (unat p) * (1 + n)) noise_image noise)), g1))
      else if noise_type = ''Uniform'' then
        (case np_random_uniform (lib_random L) (- noise_value * 255) (noise_value * 255)
                (shape noise_image) g of
           (n, g1) \<Rightarrow> (Inr (add_noise_uint8 noise_image (map_array astype_uint8 n)), g1))
      else if noise_type = ''Exponential'' then
        (case np_random_exponential (lib_exponential L) (noise_value * 255) (shape noise_image) g of
           (Inl e, g1) \<Rightarrow> (Inl e, g1)
         | (Inr n, g1) \<Rightarrow> (Inr (add_noise_uint8 noise_image (map_array astype_uint8 n)), g1))
      else gaussian_noise L noise_value noise_image g)"




section \<open>Concrete inputs for the instances below\<close>

text \<open>
  Stand-ins for the library parameters, used only to run the functions on concrete
  inputs: the gray value of a pixel is its green sample, both filters return the
  source sample, the generator state is a counter, every normal and exponential draw
  is 1 and every uniform draw is 1/2.
\<close>

definition stub_library :: "nat library" where
  "stub_library =
     \<lparr>lib_gray = (\<lambda>b g r. g),
      lib_bilateral = (\<lambda>src d sigmaColor sigmaSpace i j. dat src i j 0),
      lib_box = (\<lambda>src ksize i j. dat src i j 0),
      lib_gauss = (\<lambda>g. (1, Suc g)),
      lib_random = (\<lambda>g. (1 / 2, Suc g)),
      lib_exponential = (\<lambda>g. (1, Suc g)),
      lib_seed = (\<lambda>n. nat n)\<rparr>"

text \<open>A 2 by 2 colour frame with every sample 100, alone in the store at reference 0.\<close>

definition gray_frame :: "uint8 ndarray" where
  "gray_frame = \<lparr>shape = Shape3 2 2 3, dat = (\<lambda>i j k. 100)\<rparr>"

definition one_frame_world :: "nat world" where
  "one_frame_world = \<lparr>heap = (\<lambda>r. gray_frame), next_ref = 1, rng = 0\<rparr>"

text \<open>The conditions of \<^verbatim>\<open>process_video_stream\<close>.\<close>

definition clear_day :: DrivingConditions where
  "clear_day = \<lparr>weather = CLEAR, time_of_day = DAY, vehicle_speed = 60, ambient_light = 50000\<rparr>"




section \<open>The scalar noise level\<close>

lemma np_clip_clamp_spec: "lo \<le> hi \<Longrightarrow> np_clip v lo hi = clamp_spec v lo hi"
  by (simp add: np_clip_def clamp_spec_def min_def max_def)

lemma np_clip_bounds: "lo \<le> hi \<Longrightarrow> lo \<le> np_clip v lo hi \<and> np_clip v lo hi \<le> hi"
  by (simp add: np_clip_def min_def max_def)

lemma np_clip_mono: "u \<le> v \<Longrightarrow> np_clip u lo hi \<le> np_clip v lo hi"
  by (simp add: np_clip_def min_def max_def)

lemma weather_factors_spec: "weather_factors w = weatherFactor_spec w"
  by (cases w) (simp_all add: weatherFactor_spec_def)

lemma time_factors_spec: "time_factors t = timeFactor_spec t"
  by (cases t) (simp_all add: timeFactor_spec_def)

text \<open>
  C1. For every driving condition and every brightness and contrast (in particular
  those in [0,1]) the scalar noise level is the specification's product of factors,
  clamped into [baseNoise, maxNoise] = [0.1, 0.3], with the weather factors
  Clear 1.0, Rain 1.2, Fog 1.5, Snow 1.3 and the time factors Day 0.8, DawnDusk 1.2,
  Night 1.5; an all-black frame (brightness 0, contrast 0) under Night, Fog, 0 km/h
  and 0 lux gives exactly the upper clamp value 0.3.
\<close>

theorem calculate_noise_level_formula:
  "calculate_noise_level c brightness contrast = level_spec c brightness contrast
   \<and> base_noise_level = 0.1 \<and> max_noise_level = 0.3
   \<and> base_noise_level \<le> calculate_noise_level c brightness contrast
   \<and> calculate_noise_level c brightness contrast \<le> max_noise_level
   \<and> calculate_noise_level
        \<lparr>weather = FOG, time_of_day = NIGHT, vehicle_speed = 0, ambient_light = 0\<rparr> 0 0
       = 0.3"
proof -
  have eq: "calculate_noise_level c brightness contrast = level_spec c brightness contrast"
    by (simp add: calculate_noise_level_def level_spec_def Let_def base_noise_level_def
        max_noise_level_def np_clip_clamp_spec weather_factors_spec time_factors_spec
        mult.assoc)
  have rng: "base_noise_level \<le> calculate_noise_level c brightness contrast
      \<and> calculate_noise_level c brightness contrast \<le> max_noise_level"
    unfolding calculate_noise_level_def Let_def
    by (rule np_clip_bounds) (simp add: base_noise_level_def max_noise_level_def)
  have ex: "calculate_noise_level
        \<lparr>weather = FOG, time_of_day = NIGHT, vehicle_speed = 0, ambient_light = 0\<rparr> 0 0
       = 0.3"
    by (simp add: calculate_noise_level_def Let_def base_noise_level_def
        max_noise_level_def np_clip_def)
  show ?thesis
    using eq rng ex by (simp add: base_noise_level_def max_noise_level_def)
qed

lemma clip_scaled_antimono:
  assumes "0 < f2" and "f2 \<le> f1"
  shows "np_clip (base_noise_level * (K * f2)) base_noise_level max_noise_level
       \<le> np_clip (base_noise_level * (K * f1)) base_noise_level max_noise_level"
proof (cases "0 \<le> K")
  case True
  then have "K * f2 \<le> K * f1"
    using assms by (simp add: mult_left_mono)
  then have "base_noise_level * (K * f2) \<le> base_noise_level * (K * f1)"
    by (simp add: base_noise_level_def)
  then show ?thesis by (rule np_clip_mono)
next
  case False
  then have K: "K < 0" by simp
  have f1: "0 < f1" using assms by simp
  have "K * f2 < 0" and "K * f1 < 0"
    using K assms(1) f1 by (simp_all add: mult_neg_pos)
  then have "base_noise_level * (K * f2) < base_noise_level"
    and "base_noise_level * (K * f1) < base_noise_level"
    by (simp_all add: base_noise_level_def)
  then show ?thesis
    by (simp add: np_clip_def max_def)
qed

lemma light_factor_antimono:
  "l1 \<le> l2 \<Longrightarrow>
     1.0 + (1.0 - np_clip (l2 / 50000.0) 0 1) * 0.5 \<le> 1.0 + (1.0 - np_clip (l1 / 50000.0) 0 1) * (0.5::real)"
  by (simp add: np_clip_mono divide_right_mono)

lemma light_factor_pos: "0 < 1.0 + (1.0 - np_clip x 0 1) * (0.5::real)"
proof -
  have "0 \<le> np_clip x 0 1 \<and> np_clip x 0 1 \<le> 1"
    by (rule np_clip_bounds) simp
  then show ?thesis by argo
qed

text \<open>
  C7. With all other inputs fixed, the scalar noise level does not increase when
  the ambient light increases (from 0 towards 50000 lux, and beyond), and it does
  not increase when the brightness increases within its range, that is, lowering the
  brightness towards 0 never lowers the level.
\<close>

theorem noise_level_monotone:
  "(l1 \<le> l2 \<longrightarrow>
      calculate_noise_level (c\<lparr>ambient_light := l2\<rparr>) b k
        \<le> calculate_noise_level (c\<lparr>ambient_light := l1\<rparr>) b k)
   \<and> (b1 \<le> b2 \<and> b2 \<le> 1 \<longrightarrow>
      calculate_noise_level c b2 k \<le> calculate_noise_level c b1 k)"
proof (intro conjI impI)
  assume l: "l1 \<le> l2"
  define K where "K = weather_factors (weather c) * time_factors (time_of_day c) *
      (1.0 + (vehicle_speed c / 130.0) * 0.2) * (1.0 + (1.0 - b) * 0.3) * (1.0 + (1.0 - k) * 0.4)"
  define L where "L = (\<lambda>l::real. 1.0 + (1.0 - np_clip (l / 50000.0) 0 1) * (0.5::real))"
  have lvl: "calculate_noise_level (c\<lparr>ambient_light := l\<rparr>) b k
      = np_clip (base_noise_level * (K * L l)) base_noise_level max_noise_level" for l
    by (simp add: calculate_noise_level_def Let_def K_def L_def mult_ac)
  have "0 < L l2" unfolding L_def by (rule light_factor_pos)
  moreover have "L l2 \<le> L l1" unfolding L_def using l by (rule light_factor_antimono)
  ultimately show "calculate_noise_level (c\<lparr>ambient_light := l2\<rparr>) b k
        \<le> calculate_noise_level (c\<lparr>ambient_light := l1\<rparr>) b k"
    unfolding lvl by (rule clip_scaled_antimono)
next
  assume b: "b1 \<le> b2 \<and> b2 \<le> 1"
  define K where "K = weather_factors (weather c) * time_factors (time_of_day c) *
      (1.0 + (vehicle_speed c / 130.0) * 0.2) *
      (1.0 + (1.0 - np_clip (ambient_light c / 50000.0) 0 1) * 0.5) * (1.0 + (1.0 - k) * 0.4)"
  define B where "B = (\<lambda>x::real. 1.0 + (1.0 - x) * (0.3::real))"
  have lvl: "calculate_noise_level c x k
      = np_clip (base_noise_level * (K * B x)) base_noise_level max_noise_level" for x
    by (simp add: calculate_noise_level_def Let_def K_def B_def mult_ac)
  have "0 < B b2" unfolding B_def using b by argo
  moreover have "B b2 \<le> B b1" unfolding B_def using b by simp
  ultimately show "calculate_noise_level c b2 k \<le> calculate_noise_level c b1 k"
    unfolding lvl by (rule clip_scaled_antimono)
qed

theorem noise_level_monotone_witness:
  "(0::real) \<le> 50000 \<and>
   calculate_noise_level \<lparr>weather = FOG, time_of_day = DAY, vehicle_speed = 60, ambient_light = 50000\<rparr> (1/2) (1/2)
     \<le> calculate_noise_level \<lparr>weather = FOG, time_of_day = DAY, vehicle_speed = 60, ambient_light = 0\<rparr> (1/2) (1/2)
   \<and> (0::real) \<le> 1 \<and> (1::real) \<le> 1 \<and>
   calculate_noise_level \<lparr>weather = CLEAR, time_of_day = DAY, vehicle_speed = 0, ambient_light = 50000\<rparr> 1 1
     \<le> calculate_noise_level \<lparr>weather = CLEAR, time_of_day = DAY, vehicle_speed = 0, ambient_light = 50000\<rparr> 0 1"
  using noise_level_monotone [of 0 50000
      "\<lparr>weather = FOG, time_of_day = DAY, vehicle_speed = 60, ambient_light = 50000\<rparr>" "1/2" "1/2" 0 1]
    noise_level_monotone [of 0 0
      "\<lparr>weather = CLEAR, time_of_day = DAY, vehicle_speed = 0, ambient_light = 50000\<rparr>" 0 1 0 1]
  by simp


section \<open>The condition-driven pipeline: shape, region and errors\<close>

lemma channels_three: "channels s = 3 \<Longrightarrow> s = Shape3 (height s) (width s) 3"
  by (cases s) simp_all

lemma upt_three: "[0..<3] = [0, Suc 0, 2]"
  by (simp add: numeral_3_eq_3 upt_rec)

lemma cv2_split_length:
  "length (cv2_split region) = (if is_empty region then 0 else channels (shape region))"
  by (simp add: cv2_split_def)

lemma cv2_split_color:
  assumes "channels (shape region) = 3" and "\<not> is_empty region"
  shows "cv2_split region =
     [\<lparr>shape = Shape2 (height (shape region)) (width (shape region)), dat = (\<lambda>i j k. dat region i j 0)\<rparr>,
      \<lparr>shape = Shape2 (height (shape region)) (width (shape region)), dat = (\<lambda>i j k. dat region i j (Suc 0))\<rparr>,
      \<lparr>shape = Shape2 (height (shape region)) (width (shape region)), dat = (\<lambda>i j k. dat region i j 2)\<rparr>]"
  using assms by (simp add: cv2_split_def upt_three)

lemma np_random_normal_eq:
  "np_random_normal d loc sc s g =
     (if sc < 0 then (Inl ValueError, g)
      else (Inr (map_array (\<lambda>v. loc + sc * v) (fst (random_array d s g))),
            snd (random_array d s g)))"
  by (simp add: np_random_normal_def split: prod.splits)

lemma shape_map_array: "shape (map_array f a) = shape a"
  by (simp add: map_array_def)

lemma shape_zip_array: "shape (zip_array f a b) = shape a"
  by (simp add: zip_array_def)

lemma shape_bilateral: "shape (cv2_bilateralFilter bil src d sc ss) = shape src"
  by (simp add: cv2_bilateralFilter_def)

lemma process_channels_Cons:
  "process_channels L nl (c # cs) g =
     (if nl * 255 < 0 then (Inl ValueError, g)
      else case process_channels L nl cs (snd (random_array (lib_gauss L) (shape c) g)) of
             (Inl e, g2) \<Rightarrow> (Inl e, g2)
           | (Inr out, g2) \<Rightarrow>
               (Inr (cv2_bilateralFilter (lib_bilateral L)
                      (map_array astype_uint8 (map_array (\<lambda>v. np_clip v 0 255)
                        (zip_array (\<lambda>c n. real (unat c) + n) c
                          (map_array (\<lambda>v. 0 + nl * 255 * v)
                            (fst (random_array (lib_gauss L) (shape c) g)))))) 9 75 75 # out), g2))"
proof (cases "nl * 255 < 0")
  case True
  then show ?thesis
    by (simp only: process_channels.simps np_random_normal_eq if_True prod.case sum.case)
next
  case False
  then show ?thesis
    by (simp only: process_channels.simps np_random_normal_eq if_False Let_def prod.case
        sum.case)
qed

lemma process_channels_shapes:
  "process_channels L nl cs g = (Inr out, g') \<Longrightarrow> map shape out = map shape cs"
proof (induction cs arbitrary: g out g')
  case Nil
  then show ?case by simp
next
  case (Cons c cs)
  let ?g1 = "snd (random_array (lib_gauss L) (shape c) g)"
  obtain res g2 where r: "process_channels L nl cs ?g1 = (res, g2)"
    by (cases "process_channels L nl cs ?g1")
  from Cons.prems r obtain out' where res: "res = Inr out'"
    by (cases res) (simp_all add: process_channels_Cons del: process_channels.simps split: if_splits)
  from Cons.prems r res have out: "shape (hd out) = shape c \<and> tl out = out' \<and> out \<noteq> []"
    by (auto simp add: process_channels_Cons shape_bilateral shape_map_array shape_zip_array
        simp del: process_channels.simps split: if_splits)
  from Cons.IH [of ?g1 out' g2] r res have "map shape out' = map shape cs" by simp
  with out show ?case by (cases out) simp_all
qed

lemma process_channels_total:
  "0 \<le> nl \<Longrightarrow> \<exists>out g'. process_channels L nl cs g = (Inr out, g')"
proof (induction cs arbitrary: g)
  case Nil
  then show ?case by simp
next
  case (Cons c cs)
  let ?g1 = "snd (random_array (lib_gauss L) (shape c) g)"
  from Cons obtain out g2 where "process_channels L nl cs ?g1 = (Inr out, g2)"
    by blast
  moreover have "\<not> nl * 255 < 0" using Cons.prems by simp
  ultimately show ?case
    by (simp add: process_channels_Cons del: process_channels.simps)
qed

lemma case_three:
  "(case xs of [b, g, r] \<Rightarrow> f b g r | _ \<Rightarrow> d) =
     (if length xs = 3 then f (xs ! 0) (xs ! 1) (xs ! 2) else d)"
  by (simp split: list.splits)

lemma length_three: "length xs = 3 \<Longrightarrow> \<exists>a b c. xs = [a, b, c]"
  by (auto simp: numeral_3_eq_3 length_Suc_conv)

lemma apply_sr_to_region_eq:
  "apply_sr_to_region L region nl g =
     (if length (cv2_split region) = 3
      then case process_channels L nl (cv2_split region) g of
             (Inl e, g1) \<Rightarrow> (Inl e, g1)
           | (Inr processed_channels, g1) \<Rightarrow> (cv2_merge processed_channels, g1)
      else (Inl ValueError, g))"
proof (cases "length (cv2_split region) = 3")
  case True
  then obtain a b c where "cv2_split region = [a, b, c]"
    using length_three by blast
  then show ?thesis
    by (simp only: apply_sr_to_region_def list.case length_Cons list.size(3) numeral_3_eq_3
        if_True One_nat_def simp_thms)
next
  case False
  then show ?thesis
    by (simp only: apply_sr_to_region_def case_three if_False)
qed

lemma apply_sr_to_region_not_color:
  assumes "channels (shape region) \<noteq> 3"
  shows "apply_sr_to_region L region nl g = (Inl ValueError, g)"
proof -
  have "length (cv2_split region) \<noteq> 3"
    using assms by (simp add: cv2_split_length)
  then show ?thesis
    by (simp only: apply_sr_to_region_eq if_False)
qed

lemma apply_sr_to_region_empty:
  assumes "is_empty region"
  shows "apply_sr_to_region L region nl g = (Inl ValueError, g)"
proof -
  have "length (cv2_split region) \<noteq> 3"
    using assms by (simp add: cv2_split_length)
  then show ?thesis
    by (simp only: apply_sr_to_region_eq if_False)
qed

lemma cv2_merge_three:
  assumes "map shape out = [Shape2 h w, Shape2 h w, Shape2 h w]"
  shows "\<exists>m. cv2_merge out = Inr m \<and> shape m = Shape3 h w 3"
proof -
  have "length out = 3"
    using arg_cong [OF assms, of length] by simp
  then obtain p0 p1 p2 where out: "out = [p0, p1, p2]"
    using length_three by blast
  with assms show ?thesis
    by (simp add: cv2_merge_def)
qed

lemma split_planes_shapes:
  assumes c: "channels (shape region) = 3" and ne: "\<not> is_empty region"
  shows "map shape (cv2_split region) =
     [Shape2 (height (shape region)) (width (shape region)),
      Shape2 (height (shape region)) (width (shape region)),
      Shape2 (height (shape region)) (width (shape region))]"
  by (simp add: cv2_split_color [OF c ne])

lemma apply_sr_to_region_color:
  assumes c: "channels (shape region) = 3" and ne: "\<not> is_empty region" and nl: "0 \<le> nl"
  shows "\<exists>processed g'. apply_sr_to_region L region nl g = (Inr processed, g')
           \<and> shape processed = shape region"
proof -
  let ?h = "height (shape region)" and ?w = "width (shape region)"
  have len: "length (cv2_split region) = 3"
    using c ne by (simp add: cv2_split_length)
  from process_channels_total [OF nl, of L "cv2_split region" g] obtain out g'
    where pc: "process_channels L nl (cv2_split region) g = (Inr out, g')" by blast
  from process_channels_shapes [OF pc] split_planes_shapes [OF c ne]
  have "map shape out = [Shape2 ?h ?w, Shape2 ?h ?w, Shape2 ?h ?w]" by simp
  from cv2_merge_three [OF this] obtain m
    where m: "cv2_merge out = Inr m" "shape m = Shape3 ?h ?w 3" by blast
  have "apply_sr_to_region L region nl g = (Inr m, g')"
    by (simp only: apply_sr_to_region_eq len pc m(1) if_True prod.case sum.case simp_thms)
  moreover have "shape m = shape region"
    using m(2) channels_three [OF c] by simp
  ultimately show ?thesis by blast
qed

lemma apply_sr_to_region_shape:
  assumes "apply_sr_to_region L region nl g = (Inr processed, g')"
  shows "shape processed = shape region \<and> channels (shape region) = 3 \<and> \<not> is_empty region"
proof -
  have c: "channels (shape region) = 3"
    using assms apply_sr_to_region_not_color [of region L nl g] by auto
  have ne: "\<not> is_empty region"
    using assms apply_sr_to_region_empty [of region L nl g] by auto
  let ?h = "height (shape region)" and ?w = "width (shape region)"
  have len: "length (cv2_split region) = 3"
    using c ne by (simp add: cv2_split_length)
  obtain res g1 where pc: "process_channels L nl (cv2_split region) g = (res, g1)"
    by (cases "process_channels L nl (cv2_split region) g")
  have unf: "apply_sr_to_region L region nl g =
      (case res of Inl e \<Rightarrow> (Inl e, g1) | Inr out \<Rightarrow> (cv2_merge out, g1))"
    by (simp only: apply_sr_to_region_eq len pc if_True prod.case simp_thms)
  with assms obtain out where res: "res = Inr out" and mg: "cv2_merge out = Inr processed"
    by (cases res) simp_all
  from process_channels_shapes [OF pc [unfolded res]] split_planes_shapes [OF c ne]
  have "map shape out = [Shape2 ?h ?w, Shape2 ?h ?w, Shape2 ?h ?w]" by simp
  from cv2_merge_three [OF this] mg have "shape processed = Shape3 ?h ?w 3" by auto
  with channels_three [OF c] c ne show ?thesis by simp
qed

lemma detect_local_conditions_cases:
  "detect_local_conditions gr R =
     (if is_empty R \<or> (channels (shape R) \<noteq> 3 \<and> channels (shape R) \<noteq> 4) then Inl Cv2Error
      else Inr (np_mean \<lparr>shape = Shape2 (height (shape R)) (width (shape R)),
                  dat = (\<lambda>i j k. gr (dat R i j 0) (dat R i j 1) (dat R i j 2))\<rparr> / 255,
                np_std \<lparr>shape = Shape2 (height (shape R)) (width (shape R)),
                  dat = (\<lambda>i j k. gr (dat R i j 0) (dat R i j 1) (dat R i j 2))\<rparr> / 255))"
  by (simp add: detect_local_conditions_def cvtColor_BGR2GRAY_def Let_def)

lemma calculate_noise_level_nonneg: "0 \<le> calculate_noise_level c b k"
proof -
  have "base_noise_level \<le> calculate_noise_level c b k"
    unfolding calculate_noise_level_def Let_def
    using np_clip_bounds [of base_noise_level max_noise_level]
    by (simp add: base_noise_level_def max_noise_level_def)
  then show ?thesis by (simp add: base_noise_level_def)
qed

lemma setitem_slice2_shape:
  "setitem_slice2 a y0 y1 x0 x1 v = Inr u \<Longrightarrow> shape u = shape a"
  by (auto simp: setitem_slice2_def Let_def split: if_splits)

lemma setitem_slice2_outside:
  assumes "setitem_slice2 a y0 y1 x0 x1 v = Inr u"
    and "\<not> (slice_index y0 (height (shape a)) \<le> i \<and> i < slice_index y1 (height (shape a))
          \<and> slice_index x0 (width (shape a)) \<le> j \<and> j < slice_index x1 (width (shape a)))"
  shows "dat u i j k = dat a i j k"
  using assms by (auto simp: setitem_slice2_def Let_def split: if_splits)

lemma setitem_slice2_fits:
  "shape v = shape (getitem_slice2 a y0 y1 x0 x1) \<Longrightarrow> \<exists>u. setitem_slice2 a y0 y1 x0 x1 v = Inr u"
  by (simp add: setitem_slice2_def getitem_slice2_def Let_def)

lemma apply_sr_detect_error:
  assumes "detect_local_conditions (lib_gray L) (region_of (heap w frame) roi) = Inl e"
  shows "apply_sr L w frame cond roi = (Inl e, w)"
  using assms by (simp add: apply_sr_def)

lemma apply_sr_roi_eq:
  assumes d: "detect_local_conditions (lib_gray L) (region_of (heap w frame) (Some (x, y, rw, rh)))
      = Inr (lb, lc)"
    and r: "apply_sr_to_region L (region_of (heap w frame) (Some (x, y, rw, rh)))
      (calculate_noise_level cond lb lc) (rng w) = (res, g)"
  shows "apply_sr L w frame cond (Some (x, y, rw, rh)) =
     (case res of
        Inl e \<Rightarrow> (Inl e, (snd (alloc (heap w frame) w))\<lparr>rng := g\<rparr>)
      | Inr processed \<Rightarrow>
          (case setitem_slice2 (heap w frame) y (y + rh) x (x + rw) processed of
             Inl e \<Rightarrow> (Inl e, (snd (alloc (heap w frame) w))\<lparr>rng := g\<rparr>)
           | Inr updated \<Rightarrow>
               (Inr (next_ref w),
                (snd (alloc (heap w frame) w))\<lparr>heap := (heap (snd (alloc (heap w frame) w)))(next_ref w := updated), rng := g\<rparr>)))"
  unfolding apply_sr_def
  by (simp add: d r alloc_def Let_def alloc_def split: sum.splits)

lemma apply_sr_full_eq:
  assumes d: "detect_local_conditions (lib_gray L) (heap w frame) = Inr (lb, lc)"
    and r: "apply_sr_to_region L (heap w frame) (calculate_noise_level cond lb lc) (rng w) = (res, g)"
  shows "apply_sr L w frame cond None =
     (case res of
        Inl e \<Rightarrow> (Inl e, (snd (alloc (heap w frame) w))\<lparr>rng := g\<rparr>)
      | Inr processed \<Rightarrow>
          (Inr (Suc (next_ref w)),
           (snd (alloc (heap w frame) w))\<lparr>heap := (heap (snd (alloc (heap w frame) w)))(Suc (next_ref w) := processed),
              next_ref := Suc (Suc (next_ref w)), rng := g\<rparr>))"
  unfolding apply_sr_def
  using d r by (simp add: region_of_def alloc_def Let_def alloc_def split: sum.splits)

text \<open>
  After the clip to [0,255] the cast to uint8 is exact: it drops the fraction and
  never wraps around.
\<close>

lemma astype_uint8_clip:
  "uint (astype_uint8 (np_clip x 0 255)) = \<lfloor>np_clip x 0 255\<rfloor>"
proof -
  have b: "0 \<le> np_clip x 0 255 \<and> np_clip x 0 255 \<le> 255"
    by (rule np_clip_bounds) simp
  then have "0 \<le> \<lfloor>np_clip x 0 255\<rfloor>" and "\<lfloor>np_clip x 0 255\<rfloor> < 256"
    by (simp_all add: floor_less_iff)
  then have "\<lfloor>np_clip x 0 255\<rfloor> mod 256 = \<lfloor>np_clip x 0 255\<rfloor>"
    by simp
  with b show ?thesis
    by (simp add: astype_uint8_def uint_word_of_int not_less [symmetric])
qed

lemma uint8_range: "unat (v :: uint8) \<le> 255"
  using unsigned_less [of v, where 'a = nat] by simp

text \<open>
  C2. Whenever \<^verbatim>\<open>apply_sr\<close> returns a frame, with or without a ROI, the returned
  array has the shape of the input frame (same height, width and channel count), and
  each of its samples is a uint8 value, between 0 and 255.
\<close>

theorem apply_sr_shape_and_range:
  assumes run: "apply_sr L w frame conditions roi = (Inr result, w')"
  shows "shape (heap w' result) = shape (heap w frame)
       \<and> height (shape (heap w' result)) = height (shape (heap w frame))
       \<and> width (shape (heap w' result)) = width (shape (heap w frame))
       \<and> channels (shape (heap w' result)) = channels (shape (heap w frame))
       \<and> (\<forall>i j k. 0 \<le> unat (dat (heap w' result) i j k)
                  \<and> unat (dat (heap w' result) i j k) \<le> 255)"
proof -
  let ?R = "region_of (heap w frame) roi"
  obtain lb lc where d: "detect_local_conditions (lib_gray L) ?R = Inr (lb, lc)"
    using run apply_sr_detect_error [of L w frame roi _ conditions]
    by (cases "detect_local_conditions (lib_gray L) ?R") auto
  obtain res g where r: "apply_sr_to_region L ?R (calculate_noise_level conditions lb lc) (rng w)
      = (res, g)"
    by (cases "apply_sr_to_region L ?R (calculate_noise_level conditions lb lc) (rng w)")
  have "shape (heap w' result) = shape (heap w frame)"
  proof (cases roi)
    case None
    with d r have d': "detect_local_conditions (lib_gray L) (heap w frame) = Inr (lb, lc)"
      and r': "apply_sr_to_region L (heap w frame) (calculate_noise_level conditions lb lc) (rng w)
        = (res, g)"
      by (simp_all add: region_of_def)
    from run None apply_sr_full_eq [OF d' r']
    obtain processed where res: "res = Inr processed"
      and out: "heap w' result = processed"
      by (cases res) auto
    from apply_sr_to_region_shape [OF r' [unfolded res]] out show ?thesis by simp
  next
    case (Some q)
    obtain x y rw rh where q: "q = (x, y, rw, rh)" by (cases q)
    note eq = apply_sr_roi_eq [OF d [unfolded Some q] r [unfolded Some q]]
    from run Some q eq obtain processed updated where res: "res = Inr processed"
      and upd: "setitem_slice2 (heap w frame) y (y + rh) x (x + rw) processed = Inr updated"
      and out: "heap w' result = updated"
      by (cases res; cases "setitem_slice2 (heap w frame) y (y + rh) x (x + rw) (projr res)") auto
    from setitem_slice2_shape [OF upd] out show ?thesis by simp
  qed
  then show ?thesis by (simp add: uint8_range)
qed

lemma slice_index_inside: "0 \<le> i \<Longrightarrow> i \<le> int n \<Longrightarrow> slice_index i n = nat i"
  by (simp add: slice_index_def)

lemma shape_region_of:
  "channels (shape (region_of a roi)) = channels (shape a)"
  by (cases "shape a"; cases roi) (auto simp: region_of_def getitem_slice2_def Let_def)

lemma apply_sr_heap_old:
  assumes run: "apply_sr L w frame conditions roi = (res, w')" and a: "a < next_ref w"
  shows "heap w' a = heap w a"
proof (cases "detect_local_conditions (lib_gray L) (region_of (heap w frame) roi)")
  case (Inl e)
  from apply_sr_detect_error [OF Inl] run show ?thesis by simp
next
  case (Inr p)
  obtain lb lc where p: "p = (lb, lc)" by (cases p)
  note d = Inr [unfolded p]
  obtain r g where r: "apply_sr_to_region L (region_of (heap w frame) roi)
      (calculate_noise_level conditions lb lc) (rng w) = (r, g)"
    by (cases "apply_sr_to_region L (region_of (heap w frame) roi)
      (calculate_noise_level conditions lb lc) (rng w)")
  show ?thesis
  proof (cases roi)
    case None
    with d r have d': "detect_local_conditions (lib_gray L) (heap w frame) = Inr (lb, lc)"
      and r': "apply_sr_to_region L (heap w frame) (calculate_noise_level conditions lb lc) (rng w)
        = (r, g)"
      by (simp_all add: region_of_def)
    from run None apply_sr_full_eq [OF d' r'] a show ?thesis
      by (cases r) (auto simp: alloc_def)
  next
    case (Some q)
    obtain x y rw rh where q: "q = (x, y, rw, rh)" by (cases q)
    note eq = apply_sr_roi_eq [OF d [unfolded Some q] r [unfolded Some q]]
    from run Some q eq a show ?thesis
      by (cases r; cases "setitem_slice2 (heap w frame) y (y + rh) x (x + rw) (projr r)")
        (auto simp: alloc_def)
  qed
qed

lemma apply_sr_roi_result:
  assumes run: "apply_sr L w frame conditions (Some (x, y, rw, rh)) = (Inr result, w')"
  shows "result = next_ref w
       \<and> (\<exists>processed. setitem_slice2 (heap w frame) y (y + rh) x (x + rw) processed
              = Inr (heap w' result))"
proof -
  let ?R = "region_of (heap w frame) (Some (x, y, rw, rh))"
  obtain lb lc where d: "detect_local_conditions (lib_gray L) ?R = Inr (lb, lc)"
    using run apply_sr_detect_error [of L w frame "Some (x, y, rw, rh)" _ conditions]
    by (cases "detect_local_conditions (lib_gray L) ?R") auto
  obtain res g where r: "apply_sr_to_region L ?R (calculate_noise_level conditions lb lc) (rng w)
      = (res, g)"
    by (cases "apply_sr_to_region L ?R (calculate_noise_level conditions lb lc) (rng w)")
  from run apply_sr_roi_eq [OF d r] show ?thesis
    by (cases res; cases "setitem_slice2 (heap w frame) y (y + rh) x (x + rw) (projr res)") auto
qed

text \<open>
  C3. For a ROI that is a sub-rectangle of the frame, \<^verbatim>\<open>apply_sr\<close> never changes
  the caller's frame buffer (nor any other buffer that existed before the call),
  whatever the outcome; when it returns, the result is a newly allocated buffer,
  different from the frame, and every pixel of it outside the rectangle equals the
  pixel of the input frame.
\<close>

theorem apply_sr_roi_outside_untouched:
  assumes run: "apply_sr L w frame conditions (Some (x, y, rw, rh)) = (res, w')"
    and allocated: "frame < next_ref w"
    and inside: "0 \<le> x" "0 \<le> y" "0 < rw" "0 < rh"
      "x + rw \<le> int (width (shape (heap w frame)))"
      "y + rh \<le> int (height (shape (heap w frame)))"
  shows "heap w' frame = heap w frame
       \<and> (\<forall>a. a < next_ref w \<longrightarrow> heap w' a = heap w a)
       \<and> (\<forall>result. res = Inr result \<longrightarrow>
             result \<noteq> frame \<and> \<not> result < next_ref w
             \<and> (\<forall>i j k. \<not> (y \<le> int i \<and> int i < y + rh \<and> x \<le> int j \<and> int j < x + rw) \<longrightarrow>
                   dat (heap w' result) i j k = dat (heap w frame) i j k))"
proof (intro conjI allI impI)
  show "heap w' frame = heap w frame"
    using apply_sr_heap_old [OF run allocated] .
next
  fix a assume "a < next_ref w"
  then show "heap w' a = heap w a" using apply_sr_heap_old [OF run] by simp
next
  fix result assume res: "res = Inr result"
  from apply_sr_roi_result [OF run [unfolded res]]
  have "result = next_ref w" by simp
  with allocated show "result \<noteq> frame" and "\<not> result < next_ref w" by simp_all
next
  fix result i j k
  assume res: "res = Inr result"
    and out: "\<not> (y \<le> int i \<and> int i < y + rh \<and> x \<le> int j \<and> int j < x + rw)"
  from apply_sr_roi_result [OF run [unfolded res]] obtain processed
    where upd: "setitem_slice2 (heap w frame) y (y + rh) x (x + rw) processed = Inr (heap w' result)"
    by blast
  let ?H = "height (shape (heap w frame))" and ?W = "width (shape (heap w frame))"
  have idx: "slice_index y ?H = nat y" "slice_index (y + rh) ?H = nat (y + rh)"
    "slice_index x ?W = nat x" "slice_index (x + rw) ?W = nat (x + rw)"
    using inside by (simp_all add: slice_index_inside)
  have "\<not> (slice_index y ?H \<le> i \<and> i < slice_index (y + rh) ?H
          \<and> slice_index x ?W \<le> j \<and> j < slice_index (x + rw) ?W)"
    unfolding idx using out inside by auto
  from setitem_slice2_outside [OF upd this]
  show "dat (heap w' result) i j k = dat (heap w frame) i j k" .
qed

lemma gray_frame_color:
  "channels (shape (heap one_frame_world 0)) = 3 \<and> \<not> is_empty (heap one_frame_world 0)"
  by (simp add: one_frame_world_def gray_frame_def is_empty_def)

lemma apply_sr_roi_empty:
  assumes "is_empty (region_of (heap w frame) (Some q))"
  shows "apply_sr L w frame cond (Some q) = (Inl Cv2Error, w)"
proof -
  have "detect_local_conditions (lib_gray L) (region_of (heap w frame) (Some q)) = Inl Cv2Error"
    using assms by (simp add: detect_local_conditions_cases)
  then show ?thesis by (rule apply_sr_detect_error)
qed

lemma detect_local_conditions_color:
  "\<not> is_empty R \<Longrightarrow> channels (shape R) = 3 \<Longrightarrow>
     \<exists>lb lc. detect_local_conditions gr R = Inr (lb, lc)"
proof -
  assume "\<not> is_empty R" and "channels (shape R) = 3"
  then have "\<not> (is_empty R \<or> (channels (shape R) \<noteq> 3 \<and> channels (shape R) \<noteq> 4))"
    by simp
  then show ?thesis
    by (simp only: detect_local_conditions_cases if_False) blast
qed

lemma apply_sr_roi_returns:
  assumes c: "channels (shape (heap w frame)) = 3"
    and ne: "\<not> is_empty (region_of (heap w frame) (Some (x, y, rw, rh)))"
  shows "fst (apply_sr L w frame cond (Some (x, y, rw, rh))) = Inr (next_ref w)"
proof -
  let ?R = "region_of (heap w frame) (Some (x, y, rw, rh))"
  have cR: "channels (shape ?R) = 3" using c by (simp add: shape_region_of)
  from detect_local_conditions_color [OF ne cR, of "lib_gray L"]
  obtain lb lc where d: "detect_local_conditions (lib_gray L) ?R = Inr (lb, lc)"
    by blast
  from apply_sr_to_region_color [OF cR ne calculate_noise_level_nonneg, of L cond lb lc "rng w"]
  obtain processed g where r: "apply_sr_to_region L ?R (calculate_noise_level cond lb lc) (rng w)
      = (Inr processed, g)" and sh: "shape processed = shape ?R"
    by blast
  from sh have "shape processed = shape (getitem_slice2 (heap w frame) y (y + rh) x (x + rw))"
    by (simp add: region_of_def)
  from setitem_slice2_fits [OF this] obtain u
    where "setitem_slice2 (heap w frame) y (y + rh) x (x + rw) processed = Inr u" by blast
  with apply_sr_roi_eq [OF d r] show ?thesis by simp
qed

lemma region_nonempty_inside:
  assumes "0 \<le> x" "0 \<le> y" "x < int (width (shape a))" "y < int (height (shape a))"
    "0 < rw" "0 < rh"
  shows "\<not> is_empty (region_of a (Some (x, y, rw, rh)))"
  using assms
  by (cases "shape a")
    (auto simp: region_of_def getitem_slice2_def Let_def is_empty_def slice_index_def)

lemma apply_sr_full_returns:
  assumes c: "channels (shape (heap w frame)) = 3" and ne: "\<not> is_empty (heap w frame)"
  shows "fst (apply_sr L w frame cond None) = Inr (Suc (next_ref w))"
proof -
  from detect_local_conditions_color [OF ne c, of "lib_gray L"]
  obtain lb lc where d: "detect_local_conditions (lib_gray L) (heap w frame) = Inr (lb, lc)"
    by blast
  from apply_sr_to_region_color [OF c ne calculate_noise_level_nonneg, of L cond lb lc "rng w"]
  obtain processed g where r: "apply_sr_to_region L (heap w frame)
      (calculate_noise_level cond lb lc) (rng w) = (Inr processed, g)"
    by blast
  from apply_sr_full_eq [OF d r] show ?thesis by simp
qed

theorem apply_sr_shape_and_range_witness:
  "fst (apply_sr stub_library one_frame_world 0 clear_day None) = Inr 2
   \<and> shape (heap (snd (apply_sr stub_library one_frame_world 0 clear_day None)) 2)
       = Shape3 2 2 3
   \<and> unat (dat (heap (snd (apply_sr stub_library one_frame_world 0 clear_day None)) 2) 0 0 0)
       \<le> 255"
proof -
  let ?run = "apply_sr stub_library one_frame_world 0 clear_day None"
  have r: "fst ?run = Inr 2"
    using apply_sr_full_returns [of one_frame_world 0 stub_library clear_day] gray_frame_color
    by (simp add: one_frame_world_def)
  then have "?run = (Inr 2, snd ?run)"
    by (metis prod.collapse)
  from apply_sr_shape_and_range [OF this] r show ?thesis
    by (simp add: one_frame_world_def gray_frame_def)
qed

theorem apply_sr_roi_outside_untouched_witness:
  "fst (apply_sr stub_library one_frame_world 0 clear_day (Some (0, 0, 1, 1))) = Inr 1
   \<and> heap (snd (apply_sr stub_library one_frame_world 0 clear_day (Some (0, 0, 1, 1)))) 0
       = gray_frame
   \<and> dat (heap (snd (apply_sr stub_library one_frame_world 0 clear_day (Some (0, 0, 1, 1)))) 1)
        1 1 0 = 100"
proof -
  let ?run = "apply_sr stub_library one_frame_world 0 clear_day (Some (0, 0, 1, 1))"
  have ne: "\<not> is_empty (region_of (heap one_frame_world 0) (Some (0, 0, 1, 1)))"
    by (rule region_nonempty_inside) (simp_all add: one_frame_world_def gray_frame_def)
  have r: "fst ?run = Inr 1"
    using apply_sr_roi_returns [OF _ ne, of stub_library clear_day] gray_frame_color
    by (simp add: one_frame_world_def)
  have run: "?run = (fst ?run, snd ?run)" by simp
  have "heap (snd ?run) 0 = heap one_frame_world 0
      \<and> (\<forall>result. fst ?run = Inr result \<longrightarrow>
            (\<forall>i j k. \<not> (0 \<le> int i \<and> int i < 0 + 1 \<and> 0 \<le> int j \<and> int j < 0 + 1) \<longrightarrow>
               dat (heap (snd ?run) result) i j k = dat (heap one_frame_world 0) i j k))"
    using apply_sr_roi_outside_untouched [OF run]
    by (simp add: one_frame_world_def gray_frame_def)
  with r have "heap (snd ?run) 0 = heap one_frame_world 0
      \<and> dat (heap (snd ?run) 1) 1 1 0 = dat (heap one_frame_world 0) 1 1 0"
    by simp
  with r show ?thesis
    by (simp add: one_frame_world_def gray_frame_def)
qed

lemma apply_sr_to_region_color_eq:
  assumes c: "channels (shape region) = 3" and ne: "\<not> is_empty region" and nl: "0 \<le> nl"
  shows "apply_sr_to_region L region nl g =
     (let plane = Shape2 (height (shape region)) (width (shape region));
          Z0 = random_array (lib_gauss L) plane g;
          Z1 = random_array (lib_gauss L) plane (snd Z0);
          Z2 = random_array (lib_gauss L) plane (snd Z1);
          noisy = (\<lambda>channel Z. map_array astype_uint8
                     (map_array (\<lambda>v. np_clip v 0 255)
                        (zip_array (\<lambda>c n. real (unat c) + n) channel
                           (map_array (\<lambda>v. 0 + nl * 255 * v) (fst Z)))));
          filtered = (\<lambda>channel Z. cv2_bilateralFilter (lib_bilateral L) (noisy channel Z) 9 75 75)
      in (Inr \<lparr>shape = Shape3 (height (shape region)) (width (shape region)) 3,
               dat = (\<lambda>i j k. dat ([filtered (cv2_split region ! 0) Z0,
                                       filtered (cv2_split region ! 1) Z1,
                                       filtered (cv2_split region ! 2) Z2] ! k) i j 0)\<rparr>,
          snd Z2))"
proof -
  have len: "length (cv2_split region) = 3"
    using c ne by (simp add: cv2_split_length)
  have n: "\<not> nl * 255 < 0" using nl by simp
  show ?thesis
    unfolding apply_sr_to_region_eq Let_def
    by (simp add: len cv2_split_color [OF c ne] process_channels_Cons n cv2_merge_def
        cv2_bilateralFilter_def map_array_def zip_array_def
        del: process_channels.simps(2))
qed

lemma is_empty_region_of:
  "is_empty (region_of a (Some (x, y, rw, rh))) =
     (slice_index (y + rh) (height (shape a)) \<le> slice_index y (height (shape a))
      \<or> slice_index (x + rw) (width (shape a)) \<le> slice_index x (width (shape a)))"
  by (cases "shape a") (auto simp: region_of_def getitem_slice2_def Let_def is_empty_def)

lemma shape_region_color:
  assumes "channels (shape a) = 3"
  shows "shape (region_of a (Some (x, y, rw, rh))) =
     Shape3 (slice_index (y + rh) (height (shape a)) - slice_index y (height (shape a)))
            (slice_index (x + rw) (width (shape a)) - slice_index x (width (shape a))) 3"
  using assms by (cases "shape a") (auto simp: region_of_def getitem_slice2_def Let_def)

lemma dat_region_of:
  "dat (region_of a (Some (x, y, rw, rh))) i j k =
     dat a (slice_index y (height (shape a)) + i) (slice_index x (width (shape a)) + j) k"
  by (simp add: region_of_def getitem_slice2_def Let_def)


text \<open>
  C8, as the code has it. \<^verbatim>\<open>apply_sr\<close> does not validate the ROI and has no
  error of its own for it. On a three-channel frame it works on the rectangle that
  the slices \<^verbatim>\<open>frame[y:y+h, x:x+w]\<close> select: a bound below 0 counts from the far
  edge, and every bound is cut to the frame (for bounds that are not negative the
  selection is the ROI cut to the frame). If the selection has no pixel, the
  statistics step raises OpenCV's error before the copy is made and the state is
  unchanged. Otherwise the call returns a new frame of the input's shape that equals
  the input outside the selection, and in which the three samples of every selected
  pixel are the bilateral filter's values on the planes \<open>clip(channel + noise)\<close>,
  the noise being \<open>noise_level * 255\<close> times that plane's normal draws and the
  noise level the one computed from the statistics of the selection.
\<close>

theorem apply_sr_roi_not_validated:
  assumes c: "channels (shape (heap w frame)) = 3"
  shows
    "let F = heap w frame;
         r0 = slice_index y (height (shape F)); r1 = slice_index (y + rh) (height (shape F));
         c0 = slice_index x (width (shape F)); c1 = slice_index (x + rw) (width (shape F));
         region = region_of F (Some (x, y, rw, rh));
         run = apply_sr L w frame conditions (Some (x, y, rw, rh))
     in (r1 \<le> r0 \<or> c1 \<le> c0 \<longrightarrow> run = (Inl Cv2Error, w))
      \<and> (r0 < r1 \<and> c0 < c1 \<longrightarrow>
           (\<exists>local_brightness local_contrast b g r.
               detect_local_conditions (lib_gray L) region
                 = Inr (local_brightness, local_contrast)
             \<and> cv2_split region = [b, g, r]
             \<and> (\<forall>i j k. dat b i j k = dat F (r0 + i) (c0 + j) 0
                        \<and> dat g i j k = dat F (r0 + i) (c0 + j) 1
                        \<and> dat r i j k = dat F (r0 + i) (c0 + j) 2)
             \<and> (let noise_level =
                       calculate_noise_level conditions local_brightness local_contrast;
                     plane = Shape2 (r1 - r0) (c1 - c0);
                     Z0 = random_array (lib_gauss L) plane (rng w);
                     Z1 = random_array (lib_gauss L) plane (snd Z0);
                     Z2 = random_array (lib_gauss L) plane (snd Z1);
                     noisy = (\<lambda>channel Z. map_array astype_uint8
                                (map_array (\<lambda>v. np_clip v 0 255)
                                   (zip_array (\<lambda>c n. real (unat c) + n) channel
                                      (map_array (\<lambda>v. 0 + noise_level * 255 * v) (fst Z)))));
                     result = heap (snd run) (next_ref w)
                 in fst run = Inr (next_ref w)
                  \<and> rng (snd run) = snd Z2
                  \<and> shape result = shape F
                  \<and> (\<forall>i j k. \<not> (r0 \<le> i \<and> i < r1 \<and> c0 \<le> j \<and> j < c1) \<longrightarrow>
                        dat result i j k = dat F i j k)
                  \<and> (\<forall>i j. r0 \<le> i \<and> i < r1 \<and> c0 \<le> j \<and> j < c1 \<longrightarrow>
                        dat result i j 0
                          = lib_bilateral L (noisy b Z0) 9 75 75 (i - r0) (j - c0)
                      \<and> dat result i j 1
                          = lib_bilateral L (noisy g Z1) 9 75 75 (i - r0) (j - c0)
                      \<and> dat result i j 2
                          = lib_bilateral L (noisy r Z2) 9 75 75 (i - r0) (j - c0)))))
      \<and> (0 \<le> x \<and> 0 \<le> y \<and> 0 \<le> x + rw \<and> 0 \<le> y + rh \<longrightarrow>
            r0 = min (nat y) (height (shape F)) \<and> r1 = min (nat (y + rh)) (height (shape F))
          \<and> c0 = min (nat x) (width (shape F)) \<and> c1 = min (nat (x + rw)) (width (shape F)))"
proof -
  let ?F = "heap w frame"
  let ?r0 = "slice_index y (height (shape ?F))" and ?r1 = "slice_index (y + rh) (height (shape ?F))"
  let ?c0 = "slice_index x (width (shape ?F))" and ?c1 = "slice_index (x + rw) (width (shape ?F))"
  let ?R = "region_of ?F (Some (x, y, rw, rh))"
  let ?run = "apply_sr L w frame conditions (Some (x, y, rw, rh))"
  have empty: "?run = (Inl Cv2Error, w)" if "?r1 \<le> ?r0 \<or> ?c1 \<le> ?c0"
  proof -
    from that have "is_empty ?R" by (simp add: is_empty_region_of)
    then show ?thesis by (rule apply_sr_roi_empty)
  qed
  have geo: "?r0 = min (nat y) (height (shape ?F)) \<and> ?r1 = min (nat (y + rh)) (height (shape ?F))
      \<and> ?c0 = min (nat x) (width (shape ?F)) \<and> ?c1 = min (nat (x + rw)) (width (shape ?F))"
    if "0 \<le> x \<and> 0 \<le> y \<and> 0 \<le> x + rw \<and> 0 \<le> y + rh"
    using that by (simp add: slice_index_def)
  have main: "\<exists>local_brightness local_contrast b g r.
               detect_local_conditions (lib_gray L) ?R
                 = Inr (local_brightness, local_contrast)
             \<and> cv2_split ?R = [b, g, r]
             \<and> (\<forall>i j k. dat b i j k = dat ?F (?r0 + i) (?c0 + j) 0
                        \<and> dat g i j k = dat ?F (?r0 + i) (?c0 + j) 1
                        \<and> dat r i j k = dat ?F (?r0 + i) (?c0 + j) 2)
             \<and> (let noise_level =
                       calculate_noise_level conditions local_brightness local_contrast;
                     plane = Shape2 (?r1 - ?r0) (?c1 - ?c0);
                     Z0 = random_array (lib_gauss L) plane (rng w);
                     Z1 = random_array (lib_gauss L) plane (snd Z0);
                     Z2 = random_array (lib_gauss L) plane (snd Z1);
                     noisy = (\<lambda>channel Z. map_array astype_uint8
                                (map_array (\<lambda>v. np_clip v 0 255)
                                   (zip_array (\<lambda>c n. real (unat c) + n) channel
                                      (map_array (\<lambda>v. 0 + noise_level * 255 * v) (fst Z)))));
                     result = heap (snd ?run) (next_ref w)
                 in fst ?run = Inr (next_ref w)
                  \<and> rng (snd ?run) = snd Z2
                  \<and> shape result = shape ?F
                  \<and> (\<forall>i j k. \<not> (?r0 \<le> i \<and> i < ?r1 \<and> ?c0 \<le> j \<and> j < ?c1) \<longrightarrow>
                        dat result i j k = dat ?F i j k)
                  \<and> (\<forall>i j. ?r0 \<le> i \<and> i < ?r1 \<and> ?c0 \<le> j \<and> j < ?c1 \<longrightarrow>
                        dat result i j 0
                          = lib_bilateral L (noisy b Z0) 9 75 75 (i - ?r0) (j - ?c0)
                      \<and> dat result i j 1
                          = lib_bilateral L (noisy g Z1) 9 75 75 (i - ?r0) (j - ?c0)
                      \<and> dat result i j 2
                          = lib_bilateral L (noisy r Z2) 9 75 75 (i - ?r0) (j - ?c0)))"
    if ne0: "?r0 < ?r1 \<and> ?c0 < ?c1"
  proof -
    from ne0 have ne: "\<not> is_empty ?R" by (simp add: is_empty_region_of)
    have cR: "channels (shape ?R) = 3" using c by (simp add: shape_region_of)
    have sR: "shape ?R = Shape3 (?r1 - ?r0) (?c1 - ?c0) 3"
      using c by (rule shape_region_color)
    from channels_three [OF c] obtain H W where sF: "shape ?F = Shape3 H W 3" by blast
    from detect_local_conditions_color [OF ne cR, of "lib_gray L"]
    obtain lb lc where d: "detect_local_conditions (lib_gray L) ?R = Inr (lb, lc)"
      by blast
    have sp: "cv2_split ?R =
      [\<lparr>shape = Shape2 (?r1 - ?r0) (?c1 - ?c0), dat = (\<lambda>i j k. dat ?R i j 0)\<rparr>,
       \<lparr>shape = Shape2 (?r1 - ?r0) (?c1 - ?c0), dat = (\<lambda>i j k. dat ?R i j (Suc 0))\<rparr>,
       \<lparr>shape = Shape2 (?r1 - ?r0) (?c1 - ?c0), dat = (\<lambda>i j k. dat ?R i j 2)\<rparr>]"
      using cv2_split_color [OF cR ne] by (simp add: sR)
    note r = apply_sr_to_region_color_eq [OF cR ne calculate_noise_level_nonneg,
        of L conditions lb lc "rng w"]
    note eq = apply_sr_roi_eq [OF d r [unfolded Let_def]]
    show ?thesis
      apply (rule exI [of _ lb], rule exI [of _ lc])
      apply (rule exI [of _ "\<lparr>shape = Shape2 (?r1 - ?r0) (?c1 - ?c0), dat = (\<lambda>i j k. dat ?R i j 0)\<rparr>"])
      apply (rule exI [of _ "\<lparr>shape = Shape2 (?r1 - ?r0) (?c1 - ?c0), dat = (\<lambda>i j k. dat ?R i j (Suc 0))\<rparr>"])
      apply (rule exI [of _ "\<lparr>shape = Shape2 (?r1 - ?r0) (?c1 - ?c0), dat = (\<lambda>i j k. dat ?R i j 2)\<rparr>"])
      using ne0
      apply (simp add: d sp eq Let_def sR sF dat_region_of setitem_slice2_def alloc_def
          cv2_bilateralFilter_def)
      apply blast
      done
  qed
  show ?thesis
    unfolding Let_def
    apply (intro conjI impI)
         apply (erule empty)
        apply (erule main [unfolded Let_def])
       apply (drule geo, simp)+
    done
qed

theorem apply_sr_roi_not_validated_witness:
  "apply_sr stub_library one_frame_world 0 clear_day (Some (0, 0, 0, 0))
     = (Inl Cv2Error, one_frame_world)
   \<and> fst (apply_sr stub_library one_frame_world 0 clear_day (Some (1, 1, 5, 5))) = Inr 1
   \<and> dat (heap (snd (apply_sr stub_library one_frame_world 0 clear_day (Some (1, 1, 5, 5)))) 1)
        0 0 0 = 100
   \<and> fst (apply_sr stub_library one_frame_world 0 clear_day (Some (- 2, 0, 1, 1))) = Inr 1"
proof -
  have c: "channels (shape (heap one_frame_world 0)) = 3"
    using gray_frame_color by simp
  have wh: "width (shape (heap one_frame_world 0)) = 2"
    "height (shape (heap one_frame_world 0)) = 2"
    by (simp_all add: one_frame_world_def gray_frame_def)
  have n: "next_ref one_frame_world = 1"
    by (simp add: one_frame_world_def)
  have px: "dat (heap one_frame_world 0) 0 0 0 = 100"
    by (simp add: one_frame_world_def gray_frame_def)
  note t0 = apply_sr_roi_not_validated [OF c, where x = 0 and y = 0 and rw = 0 and rh = 0
      and L = stub_library and conditions = clear_day, unfolded Let_def wh n]
  note t1 = apply_sr_roi_not_validated [OF c, where x = 1 and y = 1 and rw = 5 and rh = 5
      and L = stub_library and conditions = clear_day, unfolded Let_def wh n]
  note t2 = apply_sr_roi_not_validated [OF c, where x = "- 2" and y = 0 and rw = 1 and rh = 1
      and L = stub_library and conditions = clear_day, unfolded Let_def wh n]
  have a: "apply_sr stub_library one_frame_world 0 clear_day (Some (0, 0, 0, 0))
     = (Inl Cv2Error, one_frame_world)"
    using t0 by (simp add: slice_index_def)
  have b: "fst (apply_sr stub_library one_frame_world 0 clear_day (Some (1, 1, 5, 5))) = Inr 1
     \<and> dat (heap (snd (apply_sr stub_library one_frame_world 0 clear_day (Some (1, 1, 5, 5)))) 1)
        0 0 0 = 100"
    using t1 px by (auto simp: slice_index_def)
  have d: "fst (apply_sr stub_library one_frame_world 0 clear_day (Some (- 2, 0, 1, 1))) = Inr 1"
    using t2 by (auto simp: slice_index_def)
  from a b d show ?thesis by simp
qed

lemma gray_plane_mean: "np_mean \<lparr>shape = Shape2 (Suc 0) (Suc 0), dat = \<lambda>i j k. 100\<rparr> = 100"
  by (simp add: np_mean_def ravel_def)

lemma gray_plane_std: "np_std \<lparr>shape = Shape2 (Suc 0) (Suc 0), dat = \<lambda>i j k. 100\<rparr> = 0"
  by (simp add: np_std_def np_mean_def ravel_def)

lemma clear_day_level: "calculate_noise_level clear_day (20 / 51) 0 = 99897 / 690625"
  by (simp add: calculate_noise_level_def clear_day_def Let_def base_noise_level_def
      max_noise_level_def np_clip_def)

lemma clear_day_sample:
  "astype_uint8 (np_clip (100 + calculate_noise_level clear_day (20 / 51) 0 * 255) 0 255) = 136"
  by (simp add: clear_day_level np_clip_def astype_uint8_def)

text \<open>
  C8 as it was stated fails on the code: on the 2 by 2 frame the ROI (1, 1, 5, 5)
  reaches beyond the right and bottom edges, yet the call returns a frame (no error
  is reported) in which the pixel at row 1, column 1 has been processed.
\<close>

theorem roi_beyond_frame_is_processed:
  "int (width (shape (heap one_frame_world 0))) < 1 + 5
   \<and> int (height (shape (heap one_frame_world 0))) < 1 + 5
   \<and> fst (apply_sr stub_library one_frame_world 0 clear_day (Some (1, 1, 5, 5))) = Inr 1
   \<and> dat (heap one_frame_world 0) 1 1 0 = 100
   \<and> dat (heap (snd (apply_sr stub_library one_frame_world 0 clear_day (Some (1, 1, 5, 5)))) 1)
        1 1 0 = 136"
  by (simp add: apply_sr_def detect_local_conditions_cases region_of_def gray_frame_def
      one_frame_world_def stub_library_def is_empty_def alloc_def apply_sr_to_region_eq
      cv2_split_def upt_three process_channels_Cons cv2_merge_def cv2_bilateralFilter_def
      map_array_def zip_array_def calculate_noise_level_nonneg not_less Let_def
      getitem_slice2_def setitem_slice2_def slice_index_def random_array_def size_of_def
      offset_def gray_plane_mean gray_plane_std clear_day_sample
      del: process_channels.simps(2) split: prod.splits sum.splits)

text \<open>
  C10. On a frame with one channel both steps of the scalar pipeline fail: the
  statistics step with OpenCV's error from the BGR-to-gray conversion, the filter
  step with the ValueError of unpacking the split into three planes; and
  \<^verbatim>\<open>apply_sr\<close> itself raises the first of them with the state unchanged, before
  any array is allocated.
\<close>

theorem grayscale_frames_rejected:
  assumes "channels (shape (heap w frame)) = 1"
  shows "detect_local_conditions (lib_gray L) (heap w frame) = Inl Cv2Error
       \<and> apply_sr_to_region L (heap w frame) noise_level g = (Inl ValueError, g)
       \<and> apply_sr L w frame conditions roi = (Inl Cv2Error, w)"
proof -
  have d: "detect_local_conditions (lib_gray L) (heap w frame) = Inl Cv2Error"
    using assms by (simp add: detect_local_conditions_cases)
  have "channels (shape (region_of (heap w frame) roi)) = 1"
    using assms by (simp add: shape_region_of)
  then have "detect_local_conditions (lib_gray L) (region_of (heap w frame) roi) = Inl Cv2Error"
    by (simp add: detect_local_conditions_cases)
  then have a: "apply_sr L w frame conditions roi = (Inl Cv2Error, w)"
    by (rule apply_sr_detect_error)
  have "channels (shape (heap w frame)) \<noteq> 3" using assms by simp
  then have "apply_sr_to_region L (heap w frame) noise_level g = (Inl ValueError, g)"
    by (rule apply_sr_to_region_not_color)
  with d a show ?thesis by simp
qed

theorem grayscale_frames_rejected_witness:
  "detect_local_conditions (lib_gray stub_library) \<lparr>shape = Shape2 1 1, dat = (\<lambda>i j k. 7)\<rparr>
     = Inl Cv2Error
   \<and> apply_sr_to_region stub_library \<lparr>shape = Shape2 1 1, dat = (\<lambda>i j k. 7)\<rparr> (1 / 10) (0::nat)
     = (Inl ValueError, 0)
   \<and> apply_sr stub_library
        \<lparr>heap = (\<lambda>r. \<lparr>shape = Shape2 1 1, dat = (\<lambda>i j k. 7)\<rparr>), next_ref = 1, rng = 0\<rparr>
        0 clear_day None
     = (Inl Cv2Error,
        \<lparr>heap = (\<lambda>r. \<lparr>shape = Shape2 1 1, dat = (\<lambda>i j k. 7)\<rparr>), next_ref = 1, rng = 0\<rparr>)"
  using grayscale_frames_rejected
    [of "\<lparr>heap = (\<lambda>r. \<lparr>shape = Shape2 1 1, dat = (\<lambda>i j k. 7)\<rparr>), next_ref = 1, rng = 0\<rparr>"
      0 stub_library "1 / 10" 0 clear_day None]
  by simp


section \<open>The image-driven noise map: formula\<close>

lemma color_shape: "channels s = 3 \<Longrightarrow> \<exists>h w. s = Shape3 h w 3"
  by (cases s) simp_all

text \<open>
  C9. For every non-empty three-channel frame, \<^verbatim>\<open>adaptive_sr\<close> computes the noise
  map as \<open>base_noise * (1.0 - local / 255.0)\<close> at every position, where \<open>local\<close>
  is OpenCV's box filter with a 21 by 21 kernel of the float copy of the grayscale
  plane. The map is not clamped: it enters each output sample as it is, multiplied
  by that sample's normal draw, and only the sum with the input sample is clipped to
  [0,255] before the cast.
\<close>

theorem noise_map_is_unclamped_formula:
  assumes c: "channels (shape img) = 3" and ne: "\<not> is_empty img"
  shows "let plane = Shape2 (height (shape img)) (width (shape img));
             Z0 = random_array (lib_gauss L) plane g;
             Z1 = random_array (lib_gauss L) plane (snd Z0);
             Z2 = random_array (lib_gauss L) plane (snd Z1)
         in \<exists>gray noise_map result.
              cvtColor_BGR2GRAY (lib_gray L) img = Inr gray
            \<and> noise_map_of L img base_noise = Inr noise_map
            \<and> shape noise_map = plane
            \<and> (\<forall>i j. dat noise_map i j 0 =
                  base_noise *
                  (1.0 - lib_box L (map_array (\<lambda>v. real (unat v)) gray) (21, 21) i j / 255.0))
            \<and> adaptive_sr L img base_noise g = (Inr result, snd Z2)
            \<and> shape result = shape img
            \<and> (\<forall>i j. dat result i j 0 = astype_uint8 (np_clip
                  (real (unat (dat img i j 0)) + dat (fst Z0) i j 0 * dat noise_map i j 0) 0 255))
            \<and> (\<forall>i j. dat result i j 1 = astype_uint8 (np_clip
                  (real (unat (dat img i j 1)) + dat (fst Z1) i j 0 * dat noise_map i j 0) 0 255))
            \<and> (\<forall>i j. dat result i j 2 = astype_uint8 (np_clip
                  (real (unat (dat img i j 2)) + dat (fst Z2) i j 0 * dat noise_map i j 0) 0 255))"
proof -
  from color_shape [OF c] obtain h w where s: "shape img = Shape3 h w 3" by blast
  from ne s have hw: "h \<noteq> 0" "w \<noteq> 0" by (simp_all add: is_empty_def)
  show ?thesis
    using hw
    by (simp add: Let_def s noise_map_of_def cvtColor_BGR2GRAY_def is_empty_def adaptive_sr_def
        getitem_channel_def np_random_normal_def setitem_channel_def zeros_like_def
        map_array_def zip_array_def cv2_boxFilter_def split: prod.splits)
qed

theorem noise_map_is_unclamped_formula_witness:
  "\<exists>noise_map.
      noise_map_of stub_library \<lparr>shape = Shape3 1 1 3, dat = (\<lambda>i j k. 255)\<rparr> (1 / 10)
        = Inr noise_map
    \<and> dat noise_map 0 0 0 = 0 \<and> dat noise_map 0 0 0 < base_noise_level"
proof -
  let ?img = "\<lparr>shape = Shape3 1 1 3, dat = (\<lambda>i j k. 255)\<rparr> :: uint8 ndarray"
  have c: "channels (shape ?img) = 3" and ne: "\<not> is_empty ?img"
    by (simp_all add: is_empty_def)
  from noise_map_is_unclamped_formula [OF c ne, of stub_library 0 "1 / 10"]
  obtain gray noise_map where g: "cvtColor_BGR2GRAY (lib_gray stub_library) ?img = Inr gray"
    and n: "noise_map_of stub_library ?img (1 / 10) = Inr noise_map"
    and f: "\<forall>i j. dat noise_map i j 0 =
        1 / 10 * (1.0 - lib_box stub_library (map_array (\<lambda>v. real (unat v)) gray) (21, 21) i j / 255.0)"
    unfolding Let_def by blast
  from g have gv: "dat gray 0 0 0 = 255"
    by (auto simp: cvtColor_BGR2GRAY_def is_empty_def stub_library_def)
  from f have "dat noise_map 0 0 0 =
      1 / 10 * (1.0 - lib_box stub_library (map_array (\<lambda>v. real (unat v)) gray) (21, 21) 0 0 / 255.0)"
    by blast
  with gv have "dat noise_map 0 0 0 = 0"
    by (simp add: stub_library_def map_array_def)
  with n show ?thesis by (simp add: base_noise_level_def)
qed

section \<open>The preview applications: seed and salt-and-pepper\<close>


lemma salt_and_pepper_dat:
  "dat (salt_and_pepper noise_mask noise_value noise_image) i j k =
     (if salt_mask_at noise_value (dat noise_mask i j 0)
         \<and> \<not> pepper_mask_at noise_value (dat noise_mask i j 0)
      then 255 else dat noise_image i j k)"
  by (cases "shape noise_image")
    (simp_all add: salt_and_pepper_def Let_def np_where_def setitem_mask_def zeros_like_def
      map_array_def)



text \<open>
  C5, evaluated on the code. A pixel whose draw is above \<open>1 - noise_value / 2\<close> is
  flagged pepper, but it is not set to 0: for the 1 by 1 image with the samples
  (100, 100, 100), noise value 1/2 and draw 9/10, the output pixel is still
  (100, 100, 100). The pepper value 0 written into \<^verbatim>\<open>salt_pepper_noise\<close> is the
  same 0 that \<^verbatim>\<open>np.where(salt_pepper_noise != 0, ...)\<close> reads as no noise.
\<close>

theorem pepper_pixel_keeps_its_value:
  "pepper_mask_at (1 / 2) (9 / 10)
   \<and> dat (salt_and_pepper \<lparr>shape = Shape2 1 1, dat = (\<lambda>i j k. 9 / 10)\<rparr> (1 / 2)
            \<lparr>shape = Shape3 1 1 3, dat = (\<lambda>i j k. 100)\<rparr>) 0 0 0 = 100
   \<and> (case fst (noise_stage (stub_library\<lparr>lib_random := (\<lambda>g. (9 / 10, Suc g))\<rparr>)
                  ''Salt and Pepper'' (1 / 2)
                  \<lparr>shape = Shape3 1 1 3, dat = (\<lambda>i j k. 100)\<rparr> 0) of
         Inl e \<Rightarrow> False
       | Inr noisy_image \<Rightarrow> dat noisy_image 0 0 0 = 100 \<and> dat noisy_image 0 0 1 = 100
           \<and> dat noisy_image 0 0 2 = 100)"
  by (simp add: salt_and_pepper_dat pepper_mask_at_def salt_mask_at_def noise_stage_def
      stub_library_def random_array_def size_of_def offset_def split: prod.splits)

text \<open>
  C6. For a noise value in [0,1] no draw is below \<open>noise_value / 2\<close> and above
  \<open>1 - noise_value / 2\<close> at once: at every pixel the salt mask and the pepper mask
  of the salt-and-pepper branch are never both set.
\<close>

theorem salt_and_pepper_masks_exclusive:
  assumes "0 \<le> noise_value" and "noise_value \<le> 1"
  shows "\<not> (salt_mask_at noise_value u \<and> pepper_mask_at noise_value u)
       \<and> \<not> (dat (map_array (salt_mask_at noise_value) noise_mask) i j k
             \<and> dat (map_array (pepper_mask_at noise_value) noise_mask) i j k)"
  using assms by (auto simp: salt_mask_at_def pepper_mask_at_def map_array_def)

theorem salt_and_pepper_masks_exclusive_witness:
  "(0::real) \<le> 1 \<and> salt_mask_at 1 (1 / 4) \<and> \<not> pepper_mask_at 1 (1 / 4)
   \<and> \<not> salt_mask_at 1 (3 / 4) \<and> pepper_mask_at 1 (3 / 4)
   \<and> \<not> (salt_mask_at 1 (1 / 2) \<and> pepper_mask_at 1 (1 / 2))"
  using salt_and_pepper_masks_exclusive [of 1 "1 / 2"]
  by (simp add: salt_mask_at_def pepper_mask_at_def)

end
